theory Spec2Isabelle
  imports Complex_Main "HOL-Library.AList"
begin

section \<open>Python values and exceptions\<close>

text \<open>
  The module \<^verbatim>\<open>agroservices/ipm.py\<close> works on the dictionaries that the
  platform's JSON documents decode to. A value is one of Python's JSON types; a dict keeps
  its keys in insertion order, as an association list whose keys are strings. A float is
  carried by its exact (rational) value; strings are ASCII.
\<close>

datatype json =
    JNull
  | JBool bool
  | JInt int
  | JFloat rat
  | JStr string
  | JList "json list"
  | JDict "(string \<times> json) list"

text \<open>
  The exceptions the code can raise. \<open>AssertionError\<close> carries the fixed part of its
  message and the codes that the message lists (Python prints them as a set, in no
  particular order). \<open>Unmodelled\<close> stands for behaviour of the Python runtime that this
  development does not describe (the text of a float or of a container, a dict key that
  is not a string, the quoting of an unusual string in a message); no theorem below
  concludes it.
\<close>

datatype pyerr =
    KeyError json
  | IndexError
  | TypeError
  | AttributeError
  | ValueError string
  | AssertionError string "json list"
  | UnboundLocalError string
  | OverflowError
  | Unmodelled

type_synonym 'a result = "pyerr + 'a"

definition ebind :: "'a result \<Rightarrow> ('a \<Rightarrow> 'b result) \<Rightarrow> 'b result" where
  "ebind m f = (case m of Inl e \<Rightarrow> Inl e | Inr x \<Rightarrow> f x)"

subsection \<open>Subscription, membership, assignment\<close>

definition unhashable :: "json \<Rightarrow> bool" where
  "unhashable k = (case k of JList _ \<Rightarrow> True | JDict _ \<Rightarrow> True | _ \<Rightarrow> False)"

definition index_of :: "json \<Rightarrow> int option" where
  "index_of k = (case k of JInt i \<Rightarrow> Some i | JBool b \<Rightarrow> Some (if b then 1 else 0) | _ \<Rightarrow> None)"

definition norm_index :: "nat \<Rightarrow> int \<Rightarrow> nat option" where
  \<comment> \<open>the position that index \<open>i\<close> names in a sequence of \<open>len\<close> items; a negative
      index counts from the end\<close>
  "norm_index len i =
     (if 0 \<le> i \<and> i < int len then Some (nat i)
      else if i < 0 \<and> - int len \<le> i then Some (nat (int len + i))
      else None)"

definition seq_get :: "'a list \<Rightarrow> int \<Rightarrow> 'a result" where
  "seq_get xs i =
     (case norm_index (length xs) i of None \<Rightarrow> Inl IndexError | Some j \<Rightarrow> Inr (xs ! j))"

definition getitem :: "json \<Rightarrow> json \<Rightarrow> json result" where
  \<comment> \<open>\<^verbatim>\<open>c[k]\<close>\<close>
  "getitem c k =
     (case c of
        JDict kvs \<Rightarrow>
          (if unhashable k then Inl TypeError
           else case k of
             JStr s \<Rightarrow> (case map_of kvs s of None \<Rightarrow> Inl (KeyError k) | Some v \<Rightarrow> Inr v)
           | _ \<Rightarrow> Inl (KeyError k))
      | JList xs \<Rightarrow>
          (case index_of k of None \<Rightarrow> Inl TypeError | Some i \<Rightarrow> seq_get xs i)
      | JStr s \<Rightarrow>
          (case index_of k of None \<Rightarrow> Inl TypeError
           | Some i \<Rightarrow> ebind (seq_get s i) (\<lambda>ch. Inr (JStr [ch])))
      | _ \<Rightarrow> Inl TypeError)"

definition num_of :: "json \<Rightarrow> rat option" where
  "num_of v = (case v of JBool b \<Rightarrow> Some (if b then 1 else 0) | JInt i \<Rightarrow> Some (of_int i)
               | JFloat r \<Rightarrow> Some r | _ \<Rightarrow> None)"

function (sequential) py_eq :: "json \<Rightarrow> json \<Rightarrow> bool" where
  \<comment> \<open>\<^verbatim>\<open>a == b\<close>: numbers compare by value (\<^verbatim>\<open>True == 1\<close>,
      \<^verbatim>\<open>1 == 1.0\<close>), lists elementwise, dicts key by key whatever the order\<close>
  "py_eq (JList xs) b =
     (case b of JList ys \<Rightarrow>
        length xs = length ys \<and> list_all (\<lambda>xy. py_eq (fst xy) (snd xy)) (zip xs ys)
      | _ \<Rightarrow> False)"
| "py_eq (JDict kvs) b =
     (case b of JDict kws \<Rightarrow>
        length kvs = length kws \<and>
        list_all (\<lambda>kv. case map_of kws (fst kv) of None \<Rightarrow> False
                        | Some w \<Rightarrow> py_eq (snd kv) w) kvs
      | _ \<Rightarrow> False)"
| "py_eq (JStr s) b = (b = JStr s)"
| "py_eq JNull b = (b = JNull)"
| "py_eq a b = (case num_of b of None \<Rightarrow> False | Some r \<Rightarrow> num_of a = Some r)"
  by pat_completeness auto
termination
proof (relation "measure (\<lambda>p. size (fst p))")
  show "wf (measure (\<lambda>p. size (fst p)))" by simp
next
  fix xs ys :: "json list" and b :: json and xy :: "json \<times> json"
  assume "xy \<in> set (zip xs ys)"
  then have "fst xy \<in> set xs" by (metis prod.collapse set_zip_leftD)
  then have "size (fst xy) \<le> size_list size xs" by (rule size_list_estimation') simp
  then show "((fst xy, snd xy), JList xs, b) \<in> measure (\<lambda>p. size (fst p))" by simp
next
  fix kvs :: "(string \<times> json) list" and b w :: json and kv :: "string \<times> json"
  assume "kv \<in> set kvs"
  then have "size (snd kv) \<le> size_list (size_prod (\<lambda>_. 0) size) kvs"
    by (rule size_list_estimation') (cases kv, simp)
  then show "((snd kv, w), JDict kvs, b) \<in> measure (\<lambda>p. size (fst p))" by simp
qed

fun is_infix :: "string \<Rightarrow> string \<Rightarrow> bool" where
  "is_infix sub [] = (sub = [])"
| "is_infix sub (c # cs) = (take (length sub) (c # cs) = sub \<or> is_infix sub cs)"

definition contains :: "json \<Rightarrow> json \<Rightarrow> bool result" where
  \<comment> \<open>\<^verbatim>\<open>x in c\<close>\<close>
  "contains c x =
     (case c of
        JDict kvs \<Rightarrow>
          (if unhashable x then Inl TypeError
           else case x of JStr s \<Rightarrow> Inr (s \<in> set (map fst kvs)) | _ \<Rightarrow> Inr False)
      | JList xs \<Rightarrow> Inr (list_ex (\<lambda>y. py_eq y x) xs)
      | JStr s \<Rightarrow> (case x of JStr sub \<Rightarrow> Inr (is_infix sub s) | _ \<Rightarrow> Inl TypeError)
      | _ \<Rightarrow> Inl TypeError)"

definition setitem :: "json \<Rightarrow> json \<Rightarrow> json \<Rightarrow> json result" where
  \<comment> \<open>\<^verbatim>\<open>c[k] = v\<close>, returning the updated container: an existing key keeps its
      place, a new key goes last\<close>
  "setitem c k v =
     (case c of
        JDict kvs \<Rightarrow>
          (if unhashable k then Inl TypeError
           else case k of JStr s \<Rightarrow> Inr (JDict (AList.update s v kvs)) | _ \<Rightarrow> Inl Unmodelled)
      | JList xs \<Rightarrow>
          (case index_of k of None \<Rightarrow> Inl TypeError
           | Some i \<Rightarrow>
              (case norm_index (length xs) i of None \<Rightarrow> Inl IndexError
               | Some j \<Rightarrow> Inr (JList (xs[j := v]))))
      | _ \<Rightarrow> Inl TypeError)"

definition py_iter :: "json \<Rightarrow> json list result" where
  \<comment> \<open>the items a \<^verbatim>\<open>for\<close> loop or \<^verbatim>\<open>map\<close> draws from a value\<close>
  "py_iter c =
     (case c of
        JDict kvs \<Rightarrow> Inr (map (\<lambda>kv. JStr (fst kv)) kvs)
      | JList xs \<Rightarrow> Inr xs
      | JStr s \<Rightarrow> Inr (map (\<lambda>ch. JStr [ch]) s)
      | _ \<Rightarrow> Inl TypeError)"

subsection \<open>Text of values: \<^verbatim>\<open>str\<close>, \<^verbatim>\<open>int\<close>, \<^verbatim>\<open>join\<close>\<close>

definition digit_char :: "nat \<Rightarrow> char" where
  "digit_char d = char_of (48 + d)"

fun show_nat :: "nat \<Rightarrow> string" where
  "show_nat n = (if n < 10 then [digit_char n] else show_nat (n div 10) @ [digit_char (n mod 10)])"

definition show_int :: "int \<Rightarrow> string" where
  "show_int i = (if i < 0 then CHR ''-'' # show_nat (nat (- i)) else show_nat (nat i))"

definition py_str :: "json \<Rightarrow> string result" where
  \<comment> \<open>\<^verbatim>\<open>str(v)\<close>\<close>
  "py_str v =
     (case v of
        JStr s \<Rightarrow> Inr s
      | JInt i \<Rightarrow> Inr (show_int i)
      | JBool b \<Rightarrow> Inr (if b then ''True'' else ''False'')
      | JNull \<Rightarrow> Inr ''None''
      | _ \<Rightarrow> Inl Unmodelled)"

fun map_result :: "('a \<Rightarrow> 'b result) \<Rightarrow> 'a list \<Rightarrow> 'b list result" where
  "map_result f [] = Inr []"
| "map_result f (x # xs) = ebind (f x) (\<lambda>y. ebind (map_result f xs) (\<lambda>ys. Inr (y # ys)))"

fun join :: "string \<Rightarrow> string list \<Rightarrow> string" where
  \<comment> \<open>\<^verbatim>\<open>sep.join(parts)\<close>\<close>
  "join sep [] = []"
| "join sep [x] = x"
| "join sep (x # y # ys) = x @ sep @ join sep (y # ys)"

definition join_str :: "json \<Rightarrow> json result" where
  \<comment> \<open>\<^verbatim>\<open>','.join(map(str, parameters))\<close>\<close>
  "join_str parameters =
     ebind (py_iter parameters) (\<lambda>items.
     ebind (map_result py_str items) (\<lambda>parts.
     Inr (JStr (join '','' parts))))"

definition digit_val :: "char \<Rightarrow> nat option" where
  "digit_val c = (let n = (of_char c :: nat) in if 48 \<le> n \<and> n \<le> 57 then Some (n - 48) else None)"

fun digits_val :: "nat \<Rightarrow> string \<Rightarrow> nat option" where
  \<comment> \<open>the number a run of decimal digits spells, after the digits already read\<close>
  "digits_val acc [] = Some acc"
| "digits_val acc (c # cs) =
     (case digit_val c of None \<Rightarrow> None | Some d \<Rightarrow> digits_val (10 * acc + d) cs)"

definition all_digits :: "string \<Rightarrow> nat option" where
  "all_digits s = (if s = [] then None else digits_val 0 s)"

definition is_space :: "char \<Rightarrow> bool" where
  "is_space c = (c \<in> set [CHR '' '', CHR 0x09, CHR 0x0A, CHR 0x0B, CHR 0x0C, CHR 0x0D])"

definition strip :: "string \<Rightarrow> string" where
  "strip s = rev (dropWhile is_space (rev (dropWhile is_space s)))"

definition plain :: "string \<Rightarrow> bool" where
  \<comment> \<open>printable ASCII with neither quote nor backslash: \<^verbatim>\<open>repr\<close> only adds the quotes\<close>
  "plain s = list_all (\<lambda>c. 32 \<le> (of_char c :: nat) \<and> (of_char c :: nat) < 127
                            \<and> c \<noteq> CHR 0x27 \<and> c \<noteq> CHR 0x22 \<and> c \<noteq> CHR 0x5C) s"

definition invalid_int :: "string \<Rightarrow> pyerr" where
  "invalid_int s =
     (if plain s
      then ValueError (''invalid literal for int() with base 10: '' @ [CHR 0x27] @ s @ [CHR 0x27])
      else Unmodelled)"

definition int_of_text :: "string \<Rightarrow> int result" where
  \<comment> \<open>\<^verbatim>\<open>int(s)\<close> for a string: blanks around, a sign, decimal digits; a string
      with an underscore is left to Python\<close>
  "int_of_text s =
     (let t = strip s in
      if CHR ''_'' \<in> set t then Inl Unmodelled
      else case t of
        [] \<Rightarrow> Inl (invalid_int s)
      | c # cs \<Rightarrow>
          (case all_digits (if c = CHR ''+'' \<or> c = CHR ''-'' then cs else t) of
             None \<Rightarrow> Inl (invalid_int s)
           | Some n \<Rightarrow> Inr (if c = CHR ''-'' then - int n else int n)))"

definition py_int :: "json \<Rightarrow> int result" where
  \<comment> \<open>\<^verbatim>\<open>int(v)\<close>: a float is truncated towards zero\<close>
  "py_int v =
     (case v of
        JInt i \<Rightarrow> Inr i
      | JBool b \<Rightarrow> Inr (if b then 1 else 0)
      | JFloat r \<Rightarrow> Inr (if 0 \<le> r then \<lfloor>r\<rfloor> else \<lceil>r\<rceil>)
      | JStr s \<Rightarrow> int_of_text s
      | _ \<Rightarrow> Inl TypeError)"

section \<open>Dates and times\<close>

text \<open>
  The part of Python's \<^verbatim>\<open>datetime\<close> module that the resolver calls, following the
  module's own algorithms on the proleptic Gregorian calendar. \<open>tzinfo\<close> is the UTC offset
  of an aware value in seconds, \<open>None\<close> for a naive one, and \<open>fold\<close> tells the two
  readings of a repeated wall-clock time apart. The local time zone of the machine is a
  parameter \<open>zone\<close>: the UTC offset in seconds that the system's \<^verbatim>\<open>localtime\<close> reports
  at a POSIX timestamp, so that it may differ from one instant to the next (daylight saving).
\<close>

record datetime =
  year :: int
  month :: int
  day :: int
  hour :: int
  minute :: int
  second :: int
  microsecond :: int
  tzinfo :: "int option"
  fold :: bool

definition is_leap :: "int \<Rightarrow> bool" where
  "is_leap y = (y mod 4 = 0 \<and> (y mod 100 \<noteq> 0 \<or> y mod 400 = 0))"

definition DAYS_IN_MONTH :: "int list" where
  "DAYS_IN_MONTH = [31, 28, 31, 30, 31, 30, 31, 31, 30, 31, 30, 31]"

definition days_before_year :: "int \<Rightarrow> int" where
  "days_before_year y = (let y1 = y - 1 in y1 * 365 + y1 div 4 - y1 div 100 + y1 div 400)"

definition days_in_month :: "int \<Rightarrow> int \<Rightarrow> int" where
  "days_in_month y m = (if m = 2 \<and> is_leap y then 29 else DAYS_IN_MONTH ! nat (m - 1))"

definition days_before_month :: "bool \<Rightarrow> int \<Rightarrow> int" where
  \<comment> \<open>days of the year before the first of month \<open>m\<close>, in a leap year or not\<close>
  "days_before_month leap m =
     sum_list (take (nat (m - 1)) DAYS_IN_MONTH) + (if m > 2 \<and> leap then 1 else 0)"

definition ymd2ord :: "int \<Rightarrow> int \<Rightarrow> int \<Rightarrow> int" where
  "ymd2ord y m d = days_before_year y + days_before_month (is_leap y) m + d"

definition ord2ymd :: "int \<Rightarrow> int \<times> int \<times> int" where
  "ord2ymd ordinal =
     (let n = ordinal - 1;
          n400 = n div 146097; r400 = n mod 146097;
          n100 = r400 div 36524; r100 = r400 mod 36524;
          n4 = r100 div 1461; r4 = r100 mod 1461;
          n1 = r4 div 365; r1 = r4 mod 365;
          y = n400 * 400 + 1 + n100 * 100 + n4 * 4 + n1
      in if n1 = 4 \<or> n100 = 4 then (y - 1, 12, 31)
         else
           (let leapyear = (n1 = 3 \<and> (n4 \<noteq> 24 \<or> n100 = 3));
                m = (r1 + 50) div 32;
                preceding = days_before_month leapyear m
            in if preceding > r1
               then (y, m - 1, r1 - days_before_month leapyear (m - 1) + 1)
               else (y, m, r1 - preceding + 1)))"

definition MAXORDINAL :: int where
  "MAXORDINAL = 3652059"

definition plus_seconds :: "datetime \<Rightarrow> int \<Rightarrow> datetime result" where
  \<comment> \<open>\<^verbatim>\<open>dt + timedelta(seconds=s)\<close>: arithmetic on the fields, the offset kept,
      \<open>fold\<close> cleared\<close>
  "plus_seconds dt s =
     (let secs = hour dt * 3600 + minute dt * 60 + second dt + s;
          days = ymd2ord (year dt) (month dt) (day dt) + secs div 86400;
          r = secs mod 86400
      in if 0 < days \<and> days \<le> MAXORDINAL
         then (case ord2ymd days of (y, m, d) \<Rightarrow>
                 Inr (dt\<lparr>year := y, month := m, day := d,
                         hour := r div 3600, minute := (r mod 3600) div 60, second := r mod 60,
                         fold := False\<rparr>))
         else Inl OverflowError)"

definition plus_days :: "datetime \<Rightarrow> int \<Rightarrow> datetime result" where
  \<comment> \<open>\<^verbatim>\<open>dt + timedelta(days=n)\<close>\<close>
  "plus_days dt n = plus_seconds dt (n * 86400)"

definition wall_seconds :: "datetime \<Rightarrow> int" where
  \<comment> \<open>the seconds from 1970-01-01T00:00:00 to the fields of \<open>dt\<close>, whatever its offset\<close>
  "wall_seconds dt =
     (ymd2ord (year dt) (month dt) (day dt) - 719163) * 86400
     + hour dt * 3600 + minute dt * 60 + second dt"

definition local :: "(int \<Rightarrow> int) \<Rightarrow> int \<Rightarrow> int" where
  \<comment> \<open>the local wall-clock reading, in seconds, at timestamp \<open>u\<close>\<close>
  "local zone u = u + zone u"

definition local_to_seconds :: "(int \<Rightarrow> int) \<Rightarrow> datetime \<Rightarrow> int" where
  \<comment> \<open>the timestamp \<open>u\<close> at which a naive \<open>dt\<close> is the local time: the module's search
      for a solution of \<open>local u = t\<close> with the two candidate offsets \<open>a\<close> and \<open>b\<close>\<close>
  "local_to_seconds zone dt =
     (let t = wall_seconds dt;
          a = local zone t - t;
          u1 = t - a;
          t1 = local zone u1;
          b = (if t1 = t
               then (let u2 = (if fold dt then u1 + 86400 else u1 - 86400)
                     in local zone u2 - u2)
               else t1 - u1)
      in if t1 = t \<and> a = b then u1
         else (let u2 = t - b; t2 = local zone u2
               in if t2 = t then u2
                  else if t1 = t then u1
                  else if fold dt then min u1 u2 else max u1 u2))"

definition local_timezone :: "(int \<Rightarrow> int) \<Rightarrow> int \<Rightarrow> int result" where
  \<comment> \<open>the fixed-offset \<^verbatim>\<open>timezone\<close> of the local zone at a timestamp; the constructor
      refuses an offset of a day or more\<close>
  "local_timezone zone ts =
     (let off = zone ts in
      if - 86400 < off \<and> off < 86400 then Inr off
      else Inl (ValueError ''offset must be a timedelta strictly between -timedelta(hours=24) and timedelta(hours=24)''))"

definition astimezone :: "(int \<Rightarrow> int) \<Rightarrow> datetime \<Rightarrow> datetime result" where
  \<comment> \<open>\<^verbatim>\<open>dt.astimezone()\<close>: to UTC by the value's own offset (for a naive value, the
      local offset at the instant it denotes), then to the local offset at that instant\<close>
  "astimezone zone dt =
     ebind (case tzinfo dt of
              Some off \<Rightarrow> Inr off
            | None \<Rightarrow> local_timezone zone (local_to_seconds zone dt)) (\<lambda>myoffset.
     ebind (plus_seconds dt (- myoffset)) (\<lambda>utc.
     ebind (local_timezone zone (wall_seconds utc)) (\<lambda>off.
     ebind (plus_seconds utc off) (\<lambda>r.
     Inr (r\<lparr>tzinfo := Some off\<rparr>)))))"

definition pad :: "nat \<Rightarrow> int \<Rightarrow> string" where
  \<comment> \<open>\<^verbatim>\<open>"%0wd" % n\<close> for \<open>n \<ge> 0\<close>\<close>
  "pad w n = (let t = show_nat (nat n) in replicate (w - length t) CHR ''0'' @ t)"

definition format_offset :: "int \<Rightarrow> string" where
  "format_offset off =
     (let a = \<bar>off\<bar>; hh = a div 3600; mm = (a mod 3600) div 60; ss = a mod 60
      in (if off < 0 then ''-'' else ''+'') @ pad 2 hh @ '':'' @ pad 2 mm
         @ (if ss \<noteq> 0 then '':'' @ pad 2 ss else []))"

definition isoformat :: "datetime \<Rightarrow> string" where
  "isoformat dt =
     pad 4 (year dt) @ ''-'' @ pad 2 (month dt) @ ''-'' @ pad 2 (day dt) @ ''T''
     @ pad 2 (hour dt) @ '':'' @ pad 2 (minute dt) @ '':'' @ pad 2 (second dt)
     @ (if microsecond dt \<noteq> 0 then ''.'' @ pad 6 (microsecond dt) else [])
     @ (case tzinfo dt of None \<Rightarrow> [] | Some off \<Rightarrow> format_offset off)"

subsection \<open>\<^verbatim>\<open>datetime.fromisoformat\<close>\<close>

text \<open>
  The documented format \<^verbatim>\<open>YYYY-MM-DD[*HH[:MM[:SS[.fff[fff]]]][+HH:MM[:SS]]]\<close>;
  every other string is a \<open>ValueError\<close>, and an offset with a fraction of a second is
  left to Python.
\<close>

definition two_digits :: "string \<Rightarrow> (int \<times> string) option" where
  "two_digits s =
     (case s of
        a # b # rest \<Rightarrow>
          (case (digit_val a, digit_val b) of
             (Some x, Some y) \<Rightarrow> Some (int (10 * x + y), rest)
           | _ \<Rightarrow> None)
      | _ \<Rightarrow> None)"

definition parse_fraction :: "string \<Rightarrow> int option" where
  "parse_fraction f =
     (if length f = 3 then map_option (\<lambda>n. int n * 1000) (all_digits f)
      else if length f = 6 then map_option int (all_digits f)
      else None)"

definition parse_hh_mm_ss_ff :: "string \<Rightarrow> (int \<times> int \<times> int \<times> int) option" where
  "parse_hh_mm_ss_ff s =
     (case two_digits s of None \<Rightarrow> None
      | Some (h, r1) \<Rightarrow>
         (case r1 of [] \<Rightarrow> Some (h, 0, 0, 0)
          | c1 # t1 \<Rightarrow>
             if c1 \<noteq> CHR '':'' then None
             else (case two_digits t1 of None \<Rightarrow> None
              | Some (m, r2) \<Rightarrow>
                 (case r2 of [] \<Rightarrow> Some (h, m, 0, 0)
                  | c2 # t2 \<Rightarrow>
                     if c2 \<noteq> CHR '':'' then None
                     else (case two_digits t2 of None \<Rightarrow> None
                      | Some (sec, r3) \<Rightarrow>
                         (case r3 of [] \<Rightarrow> Some (h, m, sec, 0)
                          | c3 # t3 \<Rightarrow>
                             if c3 \<noteq> CHR ''.'' then None
                             else map_option (\<lambda>us. (h, m, sec, us)) (parse_fraction t3)))))))"

definition parse_isoformat_date :: "string \<Rightarrow> (int \<times> int \<times> int) option" where
  "parse_isoformat_date s =
     (if length s \<noteq> 10 \<or> s ! 4 \<noteq> CHR ''-'' \<or> s ! 7 \<noteq> CHR ''-'' then None
      else case (all_digits (take 4 s), all_digits (take 2 (drop 5 s)), all_digits (drop 8 s)) of
             (Some y, Some m, Some d) \<Rightarrow> Some (int y, int m, int d)
           | _ \<Rightarrow> None)"

definition find_sign :: "string \<Rightarrow> nat option" where
  \<comment> \<open>where the offset starts: the first \<^verbatim>\<open>-\<close>, or else the first \<^verbatim>\<open>+\<close>\<close>
  "find_sign t =
     (if CHR ''-'' \<in> set t then Some (length (takeWhile (\<lambda>c. c \<noteq> CHR ''-'') t))
      else if CHR ''+'' \<in> set t then Some (length (takeWhile (\<lambda>c. c \<noteq> CHR ''+'') t))
      else None)"

definition invalid_iso :: "string \<Rightarrow> pyerr" where
  "invalid_iso s = ValueError (''Invalid isoformat string: '' @ [CHR 0x27] @ s @ [CHR 0x27])"

definition parse_isoformat_time ::
  "string \<Rightarrow> string \<Rightarrow> ((int \<times> int \<times> int \<times> int) \<times> int option) result" where
  "parse_isoformat_time whole t =
     (if length t < 2 then Inl (invalid_iso whole)
      else case find_sign t of
        None \<Rightarrow>
          (case parse_hh_mm_ss_ff t of None \<Rightarrow> Inl (invalid_iso whole)
           | Some c \<Rightarrow> Inr (c, None))
      | Some i \<Rightarrow>
          (case parse_hh_mm_ss_ff (take i t) of None \<Rightarrow> Inl (invalid_iso whole)
           | Some c \<Rightarrow>
              (let z = drop (Suc i) t in
               if length z = 15 then Inl Unmodelled
               else if length z \<noteq> 5 \<and> length z \<noteq> 8 then Inl (invalid_iso whole)
               else case parse_hh_mm_ss_ff z of None \<Rightarrow> Inl (invalid_iso whole)
                | Some (zh, zm, zs, _) \<Rightarrow>
                   (let off = zh * 3600 + zm * 60 + zs in
                    if 86400 \<le> off then Inl (invalid_iso whole)
                    else Inr (c, Some (if t ! i = CHR ''-'' then - off else off))))))"

definition valid_fields :: "datetime \<Rightarrow> bool" where
  "valid_fields dt =
     (1 \<le> year dt \<and> year dt \<le> 9999 \<and> 1 \<le> month dt \<and> month dt \<le> 12 \<and>
      1 \<le> day dt \<and> day dt \<le> days_in_month (year dt) (month dt) \<and>
      0 \<le> hour dt \<and> hour dt \<le> 23 \<and> 0 \<le> minute dt \<and> minute dt \<le> 59 \<and>
      0 \<le> second dt \<and> second dt \<le> 59)"

definition fromisoformat :: "string \<Rightarrow> datetime result" where
  "fromisoformat s =
     (case parse_isoformat_date (take 10 s) of None \<Rightarrow> Inl (invalid_iso s)
      | Some (y, m, d) \<Rightarrow>
         ebind (if drop 11 s = [] then Inr ((0, 0, 0, 0), None)
                else parse_isoformat_time s (drop 11 s)) (\<lambda>tc.
         case tc of ((hh, mm, ss, us), tz) \<Rightarrow>
           (let dt = \<lparr>year = y, month = m, day = d, hour = hh, minute = mm, second = ss,
                       microsecond = us, tzinfo = tz, fold = False\<rparr>
            in if valid_fields dt then Inr dt else Inl (invalid_iso s))))"

definition py_fromisoformat :: "json \<Rightarrow> datetime result" where
  \<comment> \<open>the argument must be a \<^verbatim>\<open>str\<close>\<close>
  "py_fromisoformat v = (case v of JStr s \<Rightarrow> fromisoformat s | _ \<Rightarrow> Inl TypeError)"

section \<open>Source parameter resolver\<close>

text \<open>
  The three methods \<^verbatim>\<open>weatheradapter_forecast_params\<close>,
  \<^verbatim>\<open>weatheradapter_observation_params\<close> and \<^verbatim>\<open>weatheradapter_params\<close>.
  The keyword arguments of a call are an association list \<open>kw\<close>; a named parameter
  takes its value from there or its default, and what is left goes to \<^verbatim>\<open>**options\<close>.
  A keyword that names the positional parameters is a \<open>TypeError\<close> of the call.
  \<open>now\<close> is what \<^verbatim>\<open>datetime.datetime.today()\<close> returns, \<open>zone\<close> the local time zone.
\<close>

definition kwarg :: "(string \<times> json) list \<Rightarrow> string \<Rightarrow> json \<Rightarrow> json" where
  "kwarg kw name dflt = (case map_of kw name of None \<Rightarrow> dflt | Some v \<Rightarrow> v)"

definition other_kwargs :: "string list \<Rightarrow> (string \<times> json) list \<Rightarrow> json" where
  "other_kwargs names kw = JDict (filter (\<lambda>kv. fst kv \<notin> set names) kw)"

definition rebinds_positional :: "(string \<times> json) list \<Rightarrow> bool" where
  "rebinds_positional kw = (''self'' \<in> set (map fst kw) \<or> ''source'' \<in> set (map fst kw))"

definition resolve_interval :: "json \<Rightarrow> json \<Rightarrow> json result" where
  \<comment> \<open>\<^verbatim>\<open>if interval is None: interval = source['temporal']['intervals'][0]\<close>\<close>
  "resolve_interval source interval =
     (if interval = JNull
      then ebind (getitem source (JStr ''temporal'')) (\<lambda>t.
           ebind (getitem t (JStr ''intervals'')) (\<lambda>is.
           getitem is (JInt 0)))
      else Inr interval)"

definition resolve_parameters :: "json \<Rightarrow> json \<Rightarrow> json result" where
  \<comment> \<open>\<^verbatim>\<open>if parameters is None: parameters = source['parameters']['common']\<close>,
      then the joined text\<close>
  "resolve_parameters source parameters =
     ebind (if parameters = JNull
            then ebind (getitem source (JStr ''parameters'')) (\<lambda>ps.
                 getitem ps (JStr ''common''))
            else Inr parameters) (\<lambda>parameters.
     join_str parameters)"

definition local_iso :: "(int \<Rightarrow> int) \<Rightarrow> datetime \<Rightarrow> json result" where
  \<comment> \<open>\<^verbatim>\<open>dt.astimezone().isoformat()\<close>\<close>
  "local_iso zone dt = ebind (astimezone zone dt) (\<lambda>a. Inr (JStr (isoformat a)))"

definition forecast_window :: "datetime \<Rightarrow> (int \<Rightarrow> int) \<Rightarrow> json \<Rightarrow> (json \<times> json) result" where
  \<comment> \<open>lines 208 to 217: the argument of \<^verbatim>\<open>fromisoformat\<close> is the literal
      \<^verbatim>\<open>'timeStart'\<close>, respectively \<^verbatim>\<open>'timeEnd'\<close>\<close>
  "forecast_window now zone options =
     ebind (contains options (JStr ''timeStart'')) (\<lambda>has_start.
     ebind (if has_start then py_fromisoformat (JStr ''timeStart'') else Inr now) (\<lambda>start.
     ebind (local_iso zone start) (\<lambda>timeStart.
     ebind (contains options (JStr ''timeEnd'')) (\<lambda>has_end.
     ebind (if has_end then py_fromisoformat (JStr ''timeEnd'') else plus_days start 1) (\<lambda>end.
     ebind (local_iso zone end) (\<lambda>timeEnd.
     Inr (timeStart, timeEnd)))))))"

definition weatheradapter_forecast_params ::
  "datetime \<Rightarrow> (int \<Rightarrow> int) \<Rightarrow> json \<Rightarrow> (string \<times> json) list \<Rightarrow> (string \<times> json) list result" where
  "weatheradapter_forecast_params now zone source kw =
     (if rebinds_positional kw then Inl TypeError
      else
       (let latitude = kwarg kw ''latitude'' (JFloat (4734606140756931 / 70368744177664));
            longitude = kwarg kw ''longitude'' (JFloat (8090210075613017 / 562949953421312));
            altitude = kwarg kw ''altitude'' (JInt 0);
            interval = kwarg kw ''interval'' JNull;
            parameters = kwarg kw ''parameters'' JNull;
            options = other_kwargs
              [''latitude'', ''longitude'', ''altitude'', ''interval'', ''parameters''] kw;
            params = [(''latitude'', latitude), (''longitude'', longitude),
                      (''altitude'', altitude)]
        in
        ebind (resolve_interval source interval) (\<lambda>interval.
        let params = AList.update ''interval'' interval params in
        ebind (resolve_parameters source parameters) (\<lambda>joined.
        let params = AList.update ''parameters'' joined params in
        ebind (getitem source (JStr ''id'')) (\<lambda>sid.
        let params = (if sid = JStr ''fi.fmi.forecast.location''
                      then AList.delete ''altitude'' params else params) in
        if sid = JStr ''dk.dmi.pointweather'' \<or> sid = JStr ''se.slu.lantmet''
        then ebind (forecast_window now zone options) (\<lambda>w.
             Inr (AList.update ''timeEnd'' (snd w)
                   (AList.update ''timeStart'' (fst w) params)))
        else Inr params)))))"

definition observation_window :: "(int \<Rightarrow> int) \<Rightarrow> json \<Rightarrow> json \<Rightarrow> json \<Rightarrow> (json \<times> json) result" where
  \<comment> \<open>lines 257 to 263: the local \<^verbatim>\<open>start\<close> is bound only in the first branch\<close>
  "observation_window zone source timeStart timeEnd =
     ebind (if timeStart = JNull
            then ebind (getitem source (JStr ''temporal'')) (\<lambda>t.
                 ebind (getitem t (JStr ''historic'')) (\<lambda>h.
                 ebind (getitem h (JStr ''start'')) (\<lambda>s.
                 ebind (py_fromisoformat s) (\<lambda>d.
                 ebind (plus_days d 1) (\<lambda>start.
                 ebind (local_iso zone start) (\<lambda>timeStart.
                 Inr (Some start, timeStart)))))))
            else Inr (None, timeStart)) (\<lambda>bound.
     case bound of (start, timeStart) \<Rightarrow>
     ebind (if timeEnd = JNull
            then (case start of
                    None \<Rightarrow> Inl (UnboundLocalError ''start'')
                  | Some st \<Rightarrow> ebind (plus_days st 1) (\<lambda>end. local_iso zone end))
            else Inr timeEnd) (\<lambda>timeEnd.
     Inr (timeStart, timeEnd)))"

definition station_id :: "json \<Rightarrow> json \<Rightarrow> json result" where
  \<comment> \<open>lines 266 to 277\<close>
  "station_id source weatherStationId =
     (if weatherStationId = JNull
      then ebind (getitem source (JStr ''id'')) (\<lambda>sid.
           if sid = JStr ''info.fruitweb'' then Inr (JInt 18150029)
           else if sid = JStr ''net.ipmdecisions.metos'' then Inr (JInt 732)
           else
             ebind (getitem source (JStr ''spatial'')) (\<lambda>sp.
             ebind (getitem sp (JStr ''geoJSON'')) (\<lambda>g.
             ebind (getitem g (JStr ''features'')) (\<lambda>features.
             ebind (getitem features (JInt 0)) (\<lambda>f0.
             ebind (contains f0 (JStr ''id'')) (\<lambda>has_id.
             if has_id
             then ebind (getitem f0 (JStr ''id'')) (\<lambda>i.
                  ebind (py_int i) (\<lambda>n. Inr (JInt n)))
             else ebind (getitem f0 (JStr ''properties'')) (\<lambda>pr.
                  ebind (getitem pr (JStr ''id'')) (\<lambda>i.
                  ebind (py_int i) (\<lambda>n. Inr (JInt n))))))))))
      else Inr weatherStationId)"

definition weatheradapter_observation_params ::
  "(int \<Rightarrow> int) \<Rightarrow> json \<Rightarrow> (string \<times> json) list \<Rightarrow> (string \<times> json) list result" where
  "weatheradapter_observation_params zone source kw =
     (if rebinds_positional kw then Inl TypeError
      else
       (let interval = kwarg kw ''interval'' JNull;
            parameters = kwarg kw ''parameters'' JNull;
            timeStart = kwarg kw ''timeStart'' JNull;
            timeEnd = kwarg kw ''timeEnd'' JNull;
            weatherStationId = kwarg kw ''weatherStationId'' JNull;
            options = other_kwargs
              [''interval'', ''parameters'', ''timeStart'', ''timeEnd'', ''weatherStationId''] kw;
            params = []
        in
        ebind (resolve_interval source interval) (\<lambda>interval.
        let params = AList.update ''interval'' interval params in
        ebind (resolve_parameters source parameters) (\<lambda>joined.
        let params = AList.update ''parameters'' joined params in
        ebind (observation_window zone source timeStart timeEnd) (\<lambda>w.
        let params = AList.update ''timeEnd'' (snd w)
                       (AList.update ''timeStart'' (fst w) params) in
        ebind (station_id source weatherStationId) (\<lambda>weatherStationId.
        let params = AList.update ''weatherStationId'' weatherStationId params in
        ebind (getitem source (JStr ''id'')) (\<lambda>sid.
        if sid = JStr ''fi.fmi.observation.station''
        then ebind (contains options (JStr ''ignoreErrors'')) (\<lambda>given.
             ebind (if given then getitem options (JStr ''ignoreErrors'')
                    else Inr (JBool True)) (\<lambda>ignoreErrors.
             Inr (AList.update ''ignoreErrors'' ignoreErrors params)))
        else Inr params)))))))"

definition weatheradapter_params ::
  "datetime \<Rightarrow> (int \<Rightarrow> int) \<Rightarrow> json \<Rightarrow> (string \<times> json) list \<Rightarrow> (string \<times> json) list result" where
  "weatheradapter_params now zone source kw =
     (if rebinds_positional kw then Inl TypeError
      else
       ebind (getitem source (JStr ''access_type'')) (\<lambda>access_type.
       if access_type = JStr ''stations''
       then weatheradapter_observation_params zone source kw
       else if access_type = JStr ''location''
       then weatheradapter_forecast_params now zone source kw
       else (case access_type of
               JStr a \<Rightarrow> Inl (ValueError (''Unknown access type : '' @ a))
             | _ \<Rightarrow> Inl TypeError)))"

section \<open>Model input composer\<close>

text \<open>
  The method \<^verbatim>\<open>model_input\<close>. Python mutates the dictionaries in place; here every
  assignment \<^verbatim>\<open>c[k1]...[kn] = v\<close> returns the updated root, so that a name bound to a
  part of the tree (\<^verbatim>\<open>config_params\<close> is \<^verbatim>\<open>schema['properties']['configParameters']\<close>)
  is read from the current root. The generator \<^verbatim>\<open>JSF(schema).generate()\<close> belongs to
  the library \<^verbatim>\<open>jsf\<close> and draws random values: it is the parameter \<open>faker\<close>, about
  which nothing is assumed. Assertions are enabled (Python runs without \<^verbatim>\<open>-O\<close>).
\<close>

fun set_in :: "json \<Rightarrow> json list \<Rightarrow> json \<Rightarrow> json result" where
  \<comment> \<open>\<^verbatim>\<open>c[k1]...[kn] = v\<close>: the subscriptions first, then the assignment\<close>
  "set_in c [] v = Inr v"
| "set_in c [k] v = setitem c k v"
| "set_in c (k # ks) v =
     ebind (getitem c k) (\<lambda>sub.
     ebind (set_in sub ks v) (\<lambda>sub'.
     setitem c k sub'))"

fun get_in :: "json \<Rightarrow> json list \<Rightarrow> json result" where
  \<comment> \<open>\<^verbatim>\<open>c[k1]...[kn]\<close>\<close>
  "get_in c [] = Inr c"
| "get_in c (k # ks) = ebind (getitem c k) (\<lambda>sub. get_in sub ks)"

definition container :: "json \<Rightarrow> bool" where
  \<comment> \<open>the values on which \<^verbatim>\<open>'key' in c\<close> is defined\<close>
  "container c = (case c of JDict _ \<Rightarrow> True | JList _ \<Rightarrow> True | JStr _ \<Rightarrow> True | _ \<Rightarrow> False)"

definition py_copy :: "json \<Rightarrow> json result" where
  \<comment> \<open>\<^verbatim>\<open>v.copy()\<close>: a method of dicts and lists only\<close>
  "py_copy v = (case v of JDict kvs \<Rightarrow> Inr (JDict kvs) | JList xs \<Rightarrow> Inr (JList xs)
                | _ \<Rightarrow> Inl AttributeError)"

definition py_pop :: "json \<Rightarrow> string \<Rightarrow> json result" where
  \<comment> \<open>\<^verbatim>\<open>d.pop(k)\<close>, returning the dict that is left\<close>
  "py_pop d k =
     (case d of
        JDict kvs \<Rightarrow> if k \<in> set (map fst kvs) then Inr (JDict (AList.delete k kvs))
                     else Inl (KeyError (JStr k))
      | JList xs \<Rightarrow> Inl TypeError
      | _ \<Rightarrow> Inl AttributeError)"

definition fieldobs :: "string list" where
  "fieldobs = [''fieldObservations'', ''fieldObservationQuantifications'']"

definition config_params_of :: "json \<Rightarrow> json result" where
  \<comment> \<open>\<^verbatim>\<open>schema['properties']['configParameters']\<close>, the object that line 842 names
      \<^verbatim>\<open>config_params\<close>\<close>
  "config_params_of schema =
     ebind (getitem schema (JStr ''properties'')) (\<lambda>props.
     getitem props (JStr ''configParameters''))"

definition mark_fieldobs :: "string \<Rightarrow> json \<Rightarrow> json result" where
  \<comment> \<open>lines 850 to 852, for one \<open>p\<close>\<close>
  "mark_fieldobs p schema =
     ebind (config_params_of schema) (\<lambda>config_params.
     ebind (getitem config_params (JStr ''properties'')) (\<lambda>cpp.
     ebind (contains cpp (JStr p)) (\<lambda>present.
     if present
     then set_in schema [JStr ''properties'', JStr ''configParameters'', JStr ''properties'', JStr p]
            (JDict [(''type'', JStr ''string''),
                    (''pattern'', JStr (''^{'' @ p @ ''}$'')),
                    (''default'', JStr (''{'' @ p @ ''}''))])
     else Inr schema)))"

fun for_each :: "('a \<Rightarrow> 's \<Rightarrow> 's result) \<Rightarrow> 'a list \<Rightarrow> 's \<Rightarrow> 's result" where
  \<comment> \<open>a \<^verbatim>\<open>for\<close> loop over a fixed tuple, the state threaded through\<close>
  "for_each body [] s = Inr s"
| "for_each body (x # xs) s = ebind (body x s) (for_each body xs)"

definition prepare_schema :: "json \<Rightarrow> json result" where
  \<comment> \<open>lines 841 to 855: the schema handed to the generator\<close>
  "prepare_schema model =
     ebind (getitem model (JStr ''execution'')) (\<lambda>ex.
     ebind (getitem ex (JStr ''input_schema'')) (\<lambda>s0.
     ebind (py_copy s0) (\<lambda>schema.
     ebind (config_params_of schema) (\<lambda>config_params.
     ebind (getitem schema (JStr ''properties'')) (\<lambda>props.
     ebind (contains props (JStr ''weatherData'')) (\<lambda>declared.
     ebind (if declared
            then set_in schema [JStr ''properties'', JStr ''weatherData'']
                   (JDict [(''type'', JStr ''string''),
                           (''pattern'', JStr ''^{WEATHER_DATA}$''),
                           (''default'', JStr ''{WEATHER_DATA}'')])
            else Inr schema) (\<lambda>schema.
     ebind (for_each mark_fieldobs fieldobs schema) (\<lambda>schema.
     ebind (contains schema (JStr ''definitions'')) (\<lambda>has_definitions.
     if has_definitions then py_pop schema ''definitions'' else Inr schema)))))))))"

definition item_at :: "json \<Rightarrow> nat \<Rightarrow> json option" where
  \<comment> \<open>the item that an iteration over \<open>c\<close> yields at step \<open>i\<close>\<close>
  "item_at c i =
     (case c of
        JDict kvs \<Rightarrow> if i < length kvs then Some (JStr (fst (kvs ! i))) else None
      | JList xs \<Rightarrow> if i < length xs then Some (xs ! i) else None
      | JStr s \<Rightarrow> if i < length s then Some (JStr [s ! i]) else None
      | _ \<Rightarrow> None)"

definition config_step :: "json \<Rightarrow> json \<Rightarrow> json \<Rightarrow> json \<Rightarrow> json result" where
  \<comment> \<open>lines 865 to 870, for one \<open>p\<close>\<close>
  "config_step config_params parameters p input =
     ebind (contains parameters p) (\<lambda>given.
     if given
     then ebind (getitem parameters p) (\<lambda>v.
          set_in input [JStr ''configParameters'', p] v)
     else ebind (getitem config_params (JStr ''properties'')) (\<lambda>cpp.
          ebind (getitem cpp p) (\<lambda>pschema.
          ebind (contains pschema (JStr ''default'')) (\<lambda>has_default.
          if has_default
          then ebind (getitem pschema (JStr ''default'')) (\<lambda>d.
               set_in input [JStr ''configParameters'', p] d)
          else Inr input))))"

fun config_loop :: "json \<Rightarrow> json \<Rightarrow> nat \<Rightarrow> nat \<Rightarrow> json \<Rightarrow> json result" where
  \<comment> \<open>the loop of line 864 from step \<open>i\<close>, with \<open>n\<close> steps to go: each step reads
      its item from the container as it is then\<close>
  "config_loop config_params parameters 0 i input = Inr input"
| "config_loop config_params parameters (Suc n) i input =
     ebind (getitem input (JStr ''configParameters'')) (\<lambda>ic.
     case item_at ic i of
       None \<Rightarrow> Inr input
     | Some p \<Rightarrow>
         ebind (config_step config_params parameters p input)
               (config_loop config_params parameters n (Suc i)))"

definition apply_parameters :: "json \<Rightarrow> json \<Rightarrow> json \<Rightarrow> json result" where
  \<comment> \<open>lines 861 to 870; the loop assigns to existing keys only, so the number of
      steps is the length of the container at the start\<close>
  "apply_parameters config_params parameters input =
     (let parameters = (if parameters = JNull then JDict [] else parameters) in
      ebind (contains input (JStr ''configParameters'')) (\<lambda>present.
      if present
      then ebind (getitem input (JStr ''configParameters'')) (\<lambda>ic.
           ebind (py_iter ic) (\<lambda>items.
           config_loop config_params parameters (length items) 0 input))
      else Inr input))"

definition synthesize ::
  "(json \<Rightarrow> json result) \<Rightarrow> json \<Rightarrow> json \<Rightarrow> (json \<times> json \<times> json) result" where
  \<comment> \<open>lines 841 to 870: the schema, \<^verbatim>\<open>config_params\<close> and \<^verbatim>\<open>input\<close> at line 872\<close>
  "synthesize faker model parameters =
     ebind (prepare_schema model) (\<lambda>schema.
     ebind (config_params_of schema) (\<lambda>config_params.
     ebind (faker schema) (\<lambda>input.
     ebind (apply_parameters config_params parameters input) (\<lambda>input.
     Inr (schema, config_params, input)))))"

definition weather_requirements :: "json \<Rightarrow> (json list \<times> json) result" where
  \<comment> \<open>lines 873 to 877: \<^verbatim>\<open>required\<close> and \<^verbatim>\<open>interval\<close>\<close>
  "weather_requirements model =
     ebind (getitem model (JStr ''input'')) (\<lambda>inp.
     ebind (getitem inp (JStr ''weather_parameters'')) (\<lambda>wp.
     if wp = JNull then Inr ([], JNull)
     else ebind (py_iter wp) (\<lambda>items.
          ebind (map_result (\<lambda>item. getitem item (JStr ''parameter_code'')) items) (\<lambda>required.
          ebind (getitem wp (JInt 0)) (\<lambda>first.
          ebind (getitem first (JStr ''interval'')) (\<lambda>interval.
          Inr (required, interval)))))))"

fun all_codes_in :: "json list \<Rightarrow> json \<Rightarrow> bool result" where
  \<comment> \<open>\<^verbatim>\<open>all(code in weather_data['weatherParameters'] for code in required)\<close>: the
      subscription is evaluated for each code, and the first absent code ends it\<close>
  "all_codes_in [] weather_data = Inr True"
| "all_codes_in (code # rest) weather_data =
     ebind (getitem weather_data (JStr ''weatherParameters'')) (\<lambda>wp.
     ebind (contains wp code) (\<lambda>found.
     if found then all_codes_in rest weather_data else Inr False))"

definition missing_codes :: "json list \<Rightarrow> json \<Rightarrow> json list result" where
  \<comment> \<open>\<^verbatim>\<open>set(required) - set(weather_data['weatherParameters'])\<close>\<close>
  "missing_codes required weather_data =
     (if list_ex unhashable required then Inl TypeError
      else ebind (getitem weather_data (JStr ''weatherParameters'')) (\<lambda>wp.
           ebind (py_iter wp) (\<lambda>present.
           if list_ex unhashable present then Inl TypeError
           else Inr (filter (\<lambda>code. \<not> list_ex (\<lambda>c. py_eq c code) present) required))))"

definition check_weather :: "string \<Rightarrow> json list \<Rightarrow> json \<Rightarrow> json \<Rightarrow> unit result" where
  \<comment> \<open>the two assertions of lines 881 and 882 (886 and 887)\<close>
  "check_weather msg required interval weather_data =
     ebind (all_codes_in required weather_data) (\<lambda>all_present.
     if \<not> all_present
     then ebind (missing_codes required weather_data) (\<lambda>missing.
          Inl (AssertionError msg missing))
     else ebind (getitem weather_data (JStr ''interval'')) (\<lambda>wi.
          if py_eq interval wi then Inr ()
          else Inl (AssertionError
                 ''weatherdata interval is not fullfilling model requirements'' [])))"

definition requires_error :: "json \<Rightarrow> string \<Rightarrow> pyerr result" where
  \<comment> \<open>\<^verbatim>\<open>ValueError(model['id'] + ' requires ' + what + ' as input')\<close>\<close>
  "requires_error model what =
     ebind (getitem model (JStr ''id'')) (\<lambda>mid.
     case mid of
       JStr m \<Rightarrow> Inr (ValueError (m @ '' requires '' @ what @ '' as input''))
     | _ \<Rightarrow> Inl TypeError)"

definition raise :: "pyerr result \<Rightarrow> 'a result" where
  \<comment> \<open>\<^verbatim>\<open>raise e\<close>, where building \<open>e\<close> may itself fail\<close>
  "raise e = (case e of Inl err \<Rightarrow> Inl err | Inr err \<Rightarrow> Inl err)"

definition inject_weather ::
  "json \<Rightarrow> json \<Rightarrow> json list \<Rightarrow> json \<Rightarrow> json \<Rightarrow> json \<Rightarrow> json result" where
  \<comment> \<open>lines 878 to 888\<close>
  "inject_weather model schema required interval weather_data input =
     ebind (contains input (JStr ''weatherData'')) (\<lambda>in_input.
     if in_input
     then (if weather_data = JNull then raise (requires_error model ''WeatherData'')
           else ebind (check_weather ''WeatherData parameter are missing: ''
                         required interval weather_data) (\<lambda>_.
                setitem input (JStr ''weatherData'') weather_data))
     else if weather_data \<noteq> JNull
     then ebind (getitem schema (JStr ''properties'')) (\<lambda>props.
          ebind (contains props (JStr ''weatherData'')) (\<lambda>declared.
          if declared
          then ebind (check_weather ''Some weatherdata parameter are missing''
                        required interval weather_data) (\<lambda>_.
               setitem input (JStr ''weatherData'') weather_data)
          else Inr input))
     else Inr input)"

definition inject_fieldobs :: "json \<Rightarrow> json \<Rightarrow> string \<times> json \<Rightarrow> json \<Rightarrow> json result" where
  \<comment> \<open>lines 891 to 897, for one pair \<open>(p, pvalue)\<close>\<close>
  "inject_fieldobs model config_params ppv input =
     (case ppv of (p, pvalue) \<Rightarrow>
      ebind (getitem input (JStr ''configParameters'')) (\<lambda>ic.
      ebind (contains ic (JStr p)) (\<lambda>referenced.
      if referenced
      then (if pvalue = JNull then raise (requires_error model p)
            else set_in input [JStr ''configParameters'', JStr p] pvalue)
      else if pvalue \<noteq> JNull
      then ebind (getitem config_params (JStr ''properties'')) (\<lambda>cpp.
           ebind (contains cpp (JStr p)) (\<lambda>declared.
           if declared then set_in input [JStr ''configParameters'', JStr p] pvalue
           else Inr input))
      else Inr input)))"

definition model_input ::
  "(json \<Rightarrow> json result) \<Rightarrow> json \<Rightarrow> json \<Rightarrow> json \<Rightarrow> json \<Rightarrow> json \<Rightarrow> json result" where
  "model_input faker model parameters weather_data field_observations
       field_observation_quantifications =
     ebind (synthesize faker model parameters) (\<lambda>sci.
     case sci of (schema, config_params, input) \<Rightarrow>
     ebind (weather_requirements model) (\<lambda>ri.
     case ri of (required, interval) \<Rightarrow>
     ebind (inject_weather model schema required interval weather_data input) (\<lambda>input.
     for_each (inject_fieldobs model config_params)
       (zip fieldobs [field_observations, field_observation_quantifications]) input)))"

definition priority_value :: "(string \<times> json) list \<Rightarrow> json \<Rightarrow> string \<Rightarrow> json \<Rightarrow> json" where
  \<comment> \<open>the specification's priority for key \<open>k\<close>: the override, else the default that
      \<^verbatim>\<open>config_params['properties'][k]\<close> declares, else the fake value\<close>
  "priority_value overrides config_params k fake =
     (case map_of overrides k of
        Some v \<Rightarrow> v
      | None \<Rightarrow>
         (case get_in config_params [JStr ''properties'', JStr k, JStr ''default''] of
            Inr d \<Rightarrow> d
          | Inl _ \<Rightarrow> fake))"

definition composed_at ::
  "(json \<Rightarrow> json result) \<Rightarrow> json \<Rightarrow> json \<Rightarrow> json \<Rightarrow> json \<Rightarrow> json \<Rightarrow> json list \<Rightarrow> json result" where
  "composed_at faker model parameters weather_data fo foq path =
     ebind (model_input faker model parameters weather_data fo foq) (\<lambda>out. get_in out path)"

section \<open>The schema in the store\<close>

text \<open>
  Lines 841 to 855 once more, now on Python's objects: a store of objects, a dict holding
  the addresses of its values. \<^verbatim>\<open>dict.copy()\<close> makes one new dict with the same
  addresses in it, so the dicts below the first level are shared with the caller's model.
\<close>

datatype obj =
    Scalar json
  | ListObj "nat list"
  | DictObj "(string \<times> nat) list"

type_synonym store = "obj list"

definition new_obj :: "obj \<Rightarrow> store \<Rightarrow> store \<times> nat" where
  "new_obj ob s = (s @ [ob], length s)"

fun alloc :: "json \<Rightarrow> store \<Rightarrow> store \<times> nat"
  and alloc_items :: "json list \<Rightarrow> store \<Rightarrow> store \<times> nat list"
  and alloc_entries :: "(string \<times> json) list \<Rightarrow> store \<Rightarrow> store \<times> (string \<times> nat) list" where
  \<comment> \<open>a JSON document as fresh objects, nothing shared\<close>
  "alloc (JList xs) s = (case alloc_items xs s of (s', as) \<Rightarrow> new_obj (ListObj as) s')"
| "alloc (JDict kvs) s = (case alloc_entries kvs s of (s', kas) \<Rightarrow> new_obj (DictObj kas) s')"
| "alloc v s = new_obj (Scalar v) s"
| "alloc_items [] s = (s, [])"
| "alloc_items (x # xs) s =
     (case alloc x s of (s', a) \<Rightarrow> case alloc_items xs s' of (s'', as) \<Rightarrow> (s'', a # as))"
| "alloc_entries [] s = (s, [])"
| "alloc_entries (kv # kvs) s =
     (case alloc (snd kv) s of (s', a) \<Rightarrow>
      case alloc_entries kvs s' of (s'', kas) \<Rightarrow> (s'', (fst kv, a) # kas))"

fun load :: "nat \<Rightarrow> store \<Rightarrow> nat \<Rightarrow> json option" where
  \<comment> \<open>the document that address \<open>a\<close> holds, read to the given depth\<close>
  "load 0 s a = None"
| "load (Suc n) s a =
     (if a < length s
      then (case s ! a of
              Scalar v \<Rightarrow> Some v
            | ListObj as \<Rightarrow> map_option JList (those (map (load n s) as))
            | DictObj kas \<Rightarrow>
                map_option JDict
                  (those (map (\<lambda>ka. map_option (Pair (fst ka)) (load n s (snd ka))) kas)))
      else None)"

definition h_getitem :: "store \<Rightarrow> nat \<Rightarrow> string \<Rightarrow> nat result" where
  \<comment> \<open>\<^verbatim>\<open>c['k']\<close>\<close>
  "h_getitem s a k =
     (case s ! a of
        DictObj kas \<Rightarrow> (case map_of kas k of None \<Rightarrow> Inl (KeyError (JStr k)) | Some b \<Rightarrow> Inr b)
      | _ \<Rightarrow> Inl TypeError)"

definition h_contains :: "store \<Rightarrow> nat \<Rightarrow> string \<Rightarrow> bool result" where
  \<comment> \<open>\<^verbatim>\<open>'k' in c\<close>\<close>
  "h_contains s a k =
     (case s ! a of
        DictObj kas \<Rightarrow> Inr (k \<in> set (map fst kas))
      | ListObj as \<Rightarrow> Inr (list_ex (\<lambda>b. s ! b = Scalar (JStr k)) as)
      | Scalar (JStr t) \<Rightarrow> Inr (is_infix k t)
      | _ \<Rightarrow> Inl TypeError)"

definition h_setitem :: "store \<Rightarrow> nat \<Rightarrow> string \<Rightarrow> nat \<Rightarrow> store result" where
  \<comment> \<open>\<^verbatim>\<open>c['k'] = v\<close>: the object at \<open>a\<close> changes, for every name that refers to it\<close>
  "h_setitem s a k b =
     (case s ! a of
        DictObj kas \<Rightarrow> Inr (s[a := DictObj (AList.update k b kas)])
      | _ \<Rightarrow> Inl TypeError)"

definition h_copy :: "store \<Rightarrow> nat \<Rightarrow> (store \<times> nat) result" where
  \<comment> \<open>\<^verbatim>\<open>c.copy()\<close>: a new object with the same items\<close>
  "h_copy s a =
     (case s ! a of
        DictObj kas \<Rightarrow> Inr (new_obj (DictObj kas) s)
      | ListObj as \<Rightarrow> Inr (new_obj (ListObj as) s)
      | _ \<Rightarrow> Inl AttributeError)"

definition h_pop :: "store \<Rightarrow> nat \<Rightarrow> string \<Rightarrow> store result" where
  \<comment> \<open>\<^verbatim>\<open>c.pop('k')\<close>\<close>
  "h_pop s a k =
     (case s ! a of
        DictObj kas \<Rightarrow> if k \<in> set (map fst kas) then Inr (s[a := DictObj (AList.delete k kas)])
                       else Inl (KeyError (JStr k))
      | ListObj as \<Rightarrow> Inl TypeError
      | _ \<Rightarrow> Inl AttributeError)"

definition mark_fieldobs_store :: "nat \<Rightarrow> string \<Rightarrow> store \<Rightarrow> store result" where
  \<comment> \<open>lines 850 to 852, for one \<open>p\<close>\<close>
  "mark_fieldobs_store config_params p s =
     ebind (h_getitem s config_params ''properties'') (\<lambda>cpp.
     ebind (h_contains s cpp p) (\<lambda>present.
     if present
     then (case alloc (JDict [(''type'', JStr ''string''),
                              (''pattern'', JStr (''^{'' @ p @ ''}$'')),
                              (''default'', JStr (''{'' @ p @ ''}''))]) s of
             (s', d) \<Rightarrow>
               ebind (h_getitem s' config_params ''properties'') (\<lambda>cpp'.
               h_setitem s' cpp' p d))
     else Inr s))"

definition prepare_schema_store :: "store \<Rightarrow> nat \<Rightarrow> (store \<times> nat) result" where
  \<comment> \<open>lines 841 to 855: the store afterwards and the address of \<^verbatim>\<open>schema\<close>\<close>
  "prepare_schema_store s model =
     ebind (h_getitem s model ''execution'') (\<lambda>ex.
     ebind (h_getitem s ex ''input_schema'') (\<lambda>s0.
     ebind (h_copy s s0) (\<lambda>sc.
     case sc of (s, schema) \<Rightarrow>
     ebind (h_getitem s schema ''properties'') (\<lambda>props.
     ebind (h_getitem s props ''configParameters'') (\<lambda>config_params.
     ebind (h_contains s props ''weatherData'') (\<lambda>declared.
     ebind (if declared
            then (case alloc (JDict [(''type'', JStr ''string''),
                                     (''pattern'', JStr ''^{WEATHER_DATA}$''),
                                     (''default'', JStr ''{WEATHER_DATA}'')]) s of
                    (s', d) \<Rightarrow>
                      ebind (h_getitem s' schema ''properties'') (\<lambda>props'.
                      h_setitem s' props' ''weatherData'' d))
            else Inr s) (\<lambda>s.
     ebind (for_each (mark_fieldobs_store config_params) fieldobs s) (\<lambda>s.
     ebind (h_contains s schema ''definitions'') (\<lambda>has_definitions.
     ebind (if has_definitions then h_pop s schema ''definitions'' else Inr s) (\<lambda>s.
     Inr (s, schema)))))))))))"

definition read_at :: "store \<Rightarrow> nat \<Rightarrow> json list \<Rightarrow> json result" where
  \<comment> \<open>what a holder of address \<open>a\<close> reads at \<open>path\<close>\<close>
  "read_at s a path = (case load 12 s a of None \<Rightarrow> Inl Unmodelled | Some v \<Rightarrow> get_in v path)"

definition caller_reads_before :: "json \<Rightarrow> json list \<Rightarrow> json result" where
  \<comment> \<open>the caller's model, stored as separate objects, read before the call\<close>
  "caller_reads_before model path = (case alloc model [] of (s, m) \<Rightarrow> read_at s m path)"

definition caller_reads_after :: "json \<Rightarrow> json list \<Rightarrow> json result" where
  \<comment> \<open>the same, read through the caller's own reference after lines 841 to 855\<close>
  "caller_reads_after model path =
     (case alloc model [] of (s, m) \<Rightarrow>
        ebind (prepare_schema_store s m) (\<lambda>r. read_at (fst r) m path))"

definition working_schema :: "json \<Rightarrow> json result" where
  \<comment> \<open>the document that the name \<^verbatim>\<open>schema\<close> holds after lines 841 to 855\<close>
  "working_schema model =
     (case alloc model [] of (s, m) \<Rightarrow>
        ebind (prepare_schema_store s m) (\<lambda>r. read_at (fst r) (snd r) []))"

section \<open>Example descriptors, models and documents\<close>

definition bogus_source :: json where
  "bogus_source = JDict [(''access_type'', JStr ''bogus'')]"

definition station_source :: json where
  "station_source = JDict
     [(''id'', JStr ''no.nibio.lmt''),
      (''access_type'', JStr ''stations''),
      (''temporal'', JDict [(''intervals'', JList [JInt 3600]),
                            (''historic'', JDict [(''start'', JStr ''2020-01-01T00:00:00+00:00'')])]),
      (''parameters'', JDict [(''common'', JList [JStr ''TM''])]),
      (''spatial'', JDict [(''geoJSON'', JDict [(''features'',
          JList [JDict [(''properties'', JDict [(''id'', JStr ''42'')])]])])])]"

definition fmi_source :: json where
  "fmi_source = JDict
     [(''id'', JStr ''fi.fmi.observation.station''),
      (''access_type'', JStr ''stations''),
      (''temporal'', JDict [(''intervals'', JList [JInt 3600]),
                            (''historic'', JDict [(''start'', JStr ''2020-01-01T00:00:00+00:00'')])]),
      (''parameters'', JDict [(''common'', JList [JInt 1002, JInt 3002])]),
      (''spatial'', JDict [(''geoJSON'', JDict [(''features'',
          JList [JDict [(''id'', JInt 101104), (''properties'', JDict [])]])])])]"

definition fruitweb_source :: json where
  "fruitweb_source = JDict
     [(''id'', JStr ''info.fruitweb''),
      (''access_type'', JStr ''stations''),
      (''temporal'', JDict [(''intervals'', JList [JInt 3600]),
                            (''historic'', JDict [(''start'', JStr ''2020-01-01T00:00:00+00:00'')])]),
      (''parameters'', JDict [(''common'', JList [JInt 1002])])]"

definition noon :: datetime where
  "noon = \<lparr>year = 2024, month = 2, day = 29, hour = 12, minute = 0, second = 0,
            microsecond = 0, tzinfo = None, fold = False\<rparr>"

definition spring_source :: json where
  \<comment> \<open>history starting the day before the clocks change in Paris\<close>
  "spring_source = JDict
     [(''id'', JStr ''no.nibio.lmt''),
      (''access_type'', JStr ''stations''),
      (''temporal'', JDict [(''intervals'', JList [JInt 3600]),
                            (''historic'', JDict [(''start'', JStr ''2020-03-28T00:00:00+00:00'')])]),
      (''parameters'', JDict [(''common'', JList [JStr ''TM''])]),
      (''spatial'', JDict [(''geoJSON'', JDict [(''features'',
          JList [JDict [(''properties'', JDict [(''id'', JStr ''42'')])]])])])]"

definition lettered_source :: json where
  \<comment> \<open>a first feature whose top-level id is no number, with a numeric \<^verbatim>\<open>properties.id\<close>\<close>
  "lettered_source = JDict
     [(''id'', JStr ''no.nibio.lmt''),
      (''spatial'', JDict [(''geoJSON'', JDict [(''features'',
          JList [JDict [(''id'', JStr ''ST-17''), (''properties'', JDict [(''id'', JInt 17)])]])])])]"

definition fractional_source :: json where
  "fractional_source = JDict
     [(''id'', JStr ''no.nibio.lmt''),
      (''spatial'', JDict [(''geoJSON'', JDict [(''features'',
          JList [JDict [(''id'', JFloat (85 / 2))]])])])]"

definition bare_source :: json where
  \<comment> \<open>a source other than the two with a hard-coded station, without GeoJSON\<close>
  "bare_source = JDict [(''id'', JStr ''no.nibio.lmt''), (''spatial'', JDict [])]"

definition first_feature :: "json list" where
  \<comment> \<open>the path \<^verbatim>\<open>["spatial"]["geoJSON"]['features'][0]\<close> of lines 273 and 274\<close>
  "first_feature = [JStr ''spatial'', JStr ''geoJSON'', JStr ''features'', JInt 0]"

definition utc_zone :: "int \<Rightarrow> int" where
  \<comment> \<open>a machine on UTC\<close>
  "utc_zone ts = 0"

definition paris_2020 :: "int \<Rightarrow> int" where
  \<comment> \<open>Europe/Paris in 2020: summer time from 29 March 01:00 UTC to 25 October 01:00 UTC\<close>
  "paris_2020 ts = (if 1585443600 \<le> ts \<and> ts < 1603587600 then 7200 else 3600)"

definition spec_example_source :: json where
  "spec_example_source = JDict
     [(''access_type'', JStr ''stations''),
      (''temporal'', JDict [(''intervals'', JList [JInt 3600]),
                            (''historic'', JDict [(''start'', JStr ''2020-01-01T00:00:00+00:00'')])]),
      (''parameters'', JDict [(''common'', JList [JStr ''TM''])])]"

definition unlocated_source :: json where
  "unlocated_source = JDict
     [(''id'', JStr ''no.nibio.lmt''),
      (''access_type'', JStr ''stations''),
      (''temporal'', JDict [(''intervals'', JList [JInt 3600]),
                            (''historic'', JDict [(''start'', JStr ''2020-01-01T00:00:00+00:00'')])]),
      (''parameters'', JDict [(''common'', JList [JStr ''TM''])]),
      (''spatial'', JDict [])]"

definition pointweather_source :: json where
  "pointweather_source = JDict
     [(''id'', JStr ''dk.dmi.pointweather''),
      (''access_type'', JStr ''location''),
      (''temporal'', JDict [(''intervals'', JList [JInt 3600])]),
      (''parameters'', JDict [(''common'', JList [JInt 1001, JInt 2001])])]"

definition model1 :: json where
  "model1 = JDict
    [(''id'', JStr ''no.nibio.vips.model.X''),
     (''execution'', JDict [(''input_schema'', JDict
        [(''type'', JStr ''object''),
         (''properties'', JDict
            [(''configParameters'', JDict [(''properties'', JDict
                [(''timeZone'', JDict [(''type'', JStr ''string''), (''default'', JStr ''Europe/Oslo'')]),
                 (''threshold'', JDict [(''type'', JStr ''number'')]),
                 (''fieldObservations'', JDict [(''type'', JStr ''array'')])])]),
             (''weatherData'', JDict [(''$ref'', JStr ''https://x/schema/weatherdata'')])]),
         (''definitions'', JDict [])])]),
     (''input'', JDict [(''weather_parameters'', JList [JDict [(''parameter_code'', JStr ''TM''), (''interval'', JInt 3600)]])])]"

definition prepared_at :: "json \<Rightarrow> json list \<Rightarrow> json result" where
  "prepared_at model path = ebind (prepare_schema model) (\<lambda>schema. get_in schema path)"

definition faker1 :: "json \<Rightarrow> json result" where
  "faker1 schema = Inr (JDict
     [(''configParameters'', JDict [(''timeZone'', JStr ''abc''), (''threshold'', JInt 7),
                                    (''fieldObservations'', JStr ''{fieldObservations}'')]),
      (''weatherData'', JStr ''{WEATHER_DATA}'')])"

definition faker2 :: "json \<Rightarrow> json result" where
  "faker2 schema = Inr (JDict
     [(''configParameters'', JDict [(''timeZone'', JStr ''abc''), (''threshold'', JInt 7)])])"

definition faker3 :: "json \<Rightarrow> json result" where
  "faker3 schema = Inr (JDict
     [(''configParameters'', JDict [(''timeZone'', JStr ''abc''),
                                    (''fieldObservations'', JStr ''{fieldObservations}''),
                                    (''fieldObservationQuantifications'', JStr ''xyz'')])])"

definition weather1 :: json where
  "weather1 = JDict [(''weatherParameters'', JList [JStr ''TM'', JStr ''RH'']), (''interval'', JInt 3600)]"

definition weather2 :: json where
  "weather2 = JDict [(''weatherParameters'', JList [JStr ''TM'', JStr ''RH'']), (''interval'', JInt 7200)]"

definition skeleton1 :: json where
  "skeleton1 = JDict
     [(''configParameters'', JDict [(''timeZone'', JStr ''Europe/Oslo''), (''threshold'', JInt 7),
                                    (''fieldObservations'', JStr ''{fieldObservations}'')]),
      (''weatherData'', JStr ''{WEATHER_DATA}'')]"

section \<open>Properties of the resolver\<close>

lemma ebind_Inr [simp]: "ebind (Inr x) f = f x"
  by (simp add: ebind_def)

lemma ebind_Inl [simp]: "ebind (Inl e) f = Inl e"
  by (simp add: ebind_def)

lemma ebind_eq_Inr: "ebind m f = Inr y \<longleftrightarrow> (\<exists>x. m = Inr x \<and> f x = Inr y)"
  by (cases m) simp_all

subsection \<open>Dispatch on the access type\<close>

text \<open>
  Claim C9. \<^verbatim>\<open>weatheradapter_params\<close> on a descriptor whose \<^verbatim>\<open>access_type\<close> is
  \<open>a\<close>: \<^verbatim>\<open>'stations'\<close> goes to the observation resolver, \<^verbatim>\<open>'location'\<close> to the
  forecast resolver, and every other value fails without a parameter set; when the value
  is a string, the failure is the \<open>ValueError\<close> whose message ends with that string.
\<close>

theorem weatheradapter_params_access_type:
  assumes "getitem source (JStr ''access_type'') = Inr a"
  shows "(a = JStr ''stations'' \<longrightarrow>
            weatheradapter_params now zone source kw = weatheradapter_observation_params zone source kw)
       \<and> (a = JStr ''location'' \<longrightarrow>
            weatheradapter_params now zone source kw = weatheradapter_forecast_params now zone source kw)
       \<and> (a \<noteq> JStr ''stations'' \<and> a \<noteq> JStr ''location'' \<longrightarrow>
            (\<exists>e. weatheradapter_params now zone source kw = Inl e))
       \<and> (\<forall>s. a = JStr s \<and> s \<noteq> ''stations'' \<and> s \<noteq> ''location'' \<and> \<not> rebinds_positional kw \<longrightarrow>
            weatheradapter_params now zone source kw = Inl (ValueError (''Unknown access type : '' @ s)))"
  using assms
  by (auto simp: weatheradapter_params_def weatheradapter_observation_params_def
      weatheradapter_forecast_params_def split: json.splits)

text \<open>The theorem at the descriptor with access type \<^verbatim>\<open>bogus\<close> and at a station descriptor.\<close>

theorem weatheradapter_params_access_type_witness:
  "getitem bogus_source (JStr ''access_type'') = Inr (JStr ''bogus'')
   \<and> weatheradapter_params noon utc_zone bogus_source [] = Inl (ValueError ''Unknown access type : bogus'')
   \<and> getitem station_source (JStr ''access_type'') = Inr (JStr ''stations'')
   \<and> weatheradapter_params noon utc_zone station_source []
       = weatheradapter_observation_params utc_zone station_source []"
proof -
  have b: "getitem bogus_source (JStr ''access_type'') = Inr (JStr ''bogus'')"
    by (simp add: bogus_source_def getitem_def unhashable_def)
  have s: "getitem station_source (JStr ''access_type'') = Inr (JStr ''stations'')"
    by (simp add: station_source_def getitem_def unhashable_def)
  have r: "\<not> rebinds_positional []"
    by (simp add: rebinds_positional_def)
  show ?thesis
    using b s r weatheradapter_params_access_type [OF b, of noon utc_zone "[]"]
      weatheradapter_params_access_type [OF s, of noon utc_zone "[]"]
    by simp
qed

subsection \<open>The time window of the observation resolver\<close>

text \<open>
  Claim C10. A call of \<^verbatim>\<open>weatheradapter_observation_params\<close> that gives
  \<^verbatim>\<open>timeStart\<close> and leaves \<^verbatim>\<open>timeEnd\<close> as \<^verbatim>\<open>None\<close> never returns a parameter
  set; once the interval and the parameters are resolved, the failure is the unbound local
  \<^verbatim>\<open>start\<close>.
\<close>

theorem observation_timeEnd_unbound:
  assumes "kwarg kw ''timeStart'' JNull \<noteq> JNull" and "kwarg kw ''timeEnd'' JNull = JNull"
  shows "(\<exists>e. weatheradapter_observation_params zone source kw = Inl e)
       \<and> (\<not> rebinds_positional kw
            \<and> (\<exists>i. resolve_interval source (kwarg kw ''interval'' JNull) = Inr i)
            \<and> (\<exists>j. resolve_parameters source (kwarg kw ''parameters'' JNull) = Inr j)
          \<longrightarrow> weatheradapter_observation_params zone source kw = Inl (UnboundLocalError ''start''))"
proof -
  have w: "observation_window zone source (kwarg kw ''timeStart'' JNull) (kwarg kw ''timeEnd'' JNull)
             = Inl (UnboundLocalError ''start'')"
    using assms by (simp add: observation_window_def)
  show ?thesis
  proof (cases "rebinds_positional kw")
    case True
    then show ?thesis by (simp add: weatheradapter_observation_params_def)
  next
    case False
    show ?thesis
    proof (cases "resolve_interval source (kwarg kw ''interval'' JNull)")
      case (Inl e)
      then show ?thesis using False by (simp add: weatheradapter_observation_params_def)
    next
      case i: (Inr i)
      show ?thesis
      proof (cases "resolve_parameters source (kwarg kw ''parameters'' JNull)")
        case (Inl e)
        then show ?thesis using False i by (simp add: weatheradapter_observation_params_def)
      next
        case (Inr j)
        then show ?thesis using False i w by (simp add: weatheradapter_observation_params_def)
      qed
    qed
  qed
qed

text \<open>The theorem at a station descriptor, with only \<^verbatim>\<open>timeStart\<close> given.\<close>

theorem observation_timeEnd_unbound_witness:
  "kwarg [(''timeStart'', JStr ''2020-06-12T00:00:00+03:00'')] ''timeStart'' JNull \<noteq> JNull
   \<and> kwarg [(''timeStart'', JStr ''2020-06-12T00:00:00+03:00'')] ''timeEnd'' JNull = JNull
   \<and> weatheradapter_observation_params utc_zone station_source
         [(''timeStart'', JStr ''2020-06-12T00:00:00+03:00'')] = Inl (UnboundLocalError ''start'')"
proof -
  let ?kw = "[(''timeStart'', JStr ''2020-06-12T00:00:00+03:00'')]"
  have a: "kwarg ?kw ''timeStart'' JNull \<noteq> JNull" by (simp add: kwarg_def)
  have b: "kwarg ?kw ''timeEnd'' JNull = JNull" by (simp add: kwarg_def)
  have r: "\<not> rebinds_positional ?kw" by (simp add: rebinds_positional_def)
  have i: "resolve_interval station_source (kwarg ?kw ''interval'' JNull) = Inr (JInt 3600)"
    by code_simp
  have j: "resolve_parameters station_source (kwarg ?kw ''parameters'' JNull) = Inr (JStr ''TM'')"
    by code_simp
  show ?thesis
    using a b r i j observation_timeEnd_unbound [OF a b, of utc_zone station_source] by simp
qed

subsection \<open>Station id and source options\<close>

lemma contains_options:
  "k \<notin> set names \<Longrightarrow> contains (other_kwargs names kw) (JStr k) = Inr (k \<in> set (map fst kw))"
  by (force simp: contains_def other_kwargs_def unhashable_def)

lemma map_of_filter_keys:
  "k \<notin> set names \<Longrightarrow> map_of (filter (\<lambda>kv. fst kv \<notin> set names) kw) k = map_of kw k"
  by (induction kw) auto

lemma getitem_options:
  "k \<notin> set names \<Longrightarrow> k \<in> set (map fst kw) \<Longrightarrow>
   getitem (other_kwargs names kw) (JStr k) = Inr (kwarg kw k d)"
  by (auto simp: getitem_def other_kwargs_def unhashable_def kwarg_def map_of_filter_keys
      map_of_eq_None_iff split: option.splits)

lemma kwarg_absent: "k \<notin> set (map fst kw) \<Longrightarrow> kwarg kw k d = d"
  by (simp add: kwarg_def map_of_eq_None_iff[THEN iffD2])

lemma station_id_lookup_fails:
  assumes "getitem source (JStr ''id'') = Inr sid"
    and "sid \<noteq> JStr ''info.fruitweb''" and "sid \<noteq> JStr ''net.ipmdecisions.metos''"
    and "get_in source first_feature = Inl e"
  shows "station_id source JNull = Inl e"
  using assms
  by (auto simp: station_id_def first_feature_def ebind_def split: sum.splits)

lemma station_id_feature:
  assumes "getitem source (JStr ''id'') = Inr sid"
    and "sid \<noteq> JStr ''info.fruitweb''" and "sid \<noteq> JStr ''net.ipmdecisions.metos''"
    and "get_in source first_feature = Inr f0"
  shows "station_id source JNull =
           ebind (contains f0 (JStr ''id'')) (\<lambda>has_id.
           ebind (get_in f0 (if has_id then [JStr ''id''] else [JStr ''properties'', JStr ''id''])) (\<lambda>v.
           ebind (py_int v) (\<lambda>n. Inr (JInt n))))"
proof -
  from assms(4) obtain sp g fs where
    "getitem source (JStr ''spatial'') = Inr sp" "getitem sp (JStr ''geoJSON'') = Inr g"
    "getitem g (JStr ''features'') = Inr fs" "getitem fs (JInt 0) = Inr f0"
    by (auto simp: first_feature_def ebind_eq_Inr)
  then have "station_id source JNull =
           ebind (contains f0 (JStr ''id'')) (\<lambda>has_id.
             if has_id
             then ebind (getitem f0 (JStr ''id'')) (\<lambda>i.
                  ebind (py_int i) (\<lambda>n. Inr (JInt n)))
             else ebind (getitem f0 (JStr ''properties'')) (\<lambda>pr.
                  ebind (getitem pr (JStr ''id'')) (\<lambda>i.
                  ebind (py_int i) (\<lambda>n. Inr (JInt n)))))"
    using assms(1,2,3) by (simp add: station_id_def)
  also have "\<dots> = ebind (contains f0 (JStr ''id'')) (\<lambda>has_id.
           ebind (get_in f0 (if has_id then [JStr ''id''] else [JStr ''properties'', JStr ''id''])) (\<lambda>v.
           ebind (py_int v) (\<lambda>n. Inr (JInt n))))"
  proof (cases "contains f0 (JStr ''id'')")
    case (Inr has_id)
    show ?thesis
    proof (cases has_id)
      case True
      then show ?thesis using Inr
        by (cases "getitem f0 (JStr ''id'')") simp_all
    next
      case False
      show ?thesis
      proof (cases "getitem f0 (JStr ''properties'')")
        case (Inl e)
        then show ?thesis using Inr False by simp
      next
        case pr: (Inr pr)
        then show ?thesis using Inr False
          by (cases "getitem pr (JStr ''id'')") simp_all
      qed
    qed
  qed simp
  finally show ?thesis .
qed

text \<open>
  Claim C8 fails as stated for the sources without a hard-coded station: the station is
  \<^verbatim>\<open>int()\<close> of the feature's id, not the id. A first feature with id 42.5 gives 42;
  a top-level id \<^verbatim>\<open>ST-17\<close> raises \<open>ValueError\<close>, although \<^verbatim>\<open>properties.id\<close> is
  17; a descriptor without GeoJSON raises \<open>KeyError\<close>.
\<close>

theorem observation_station_id_counterexample:
  "get_in fractional_source (first_feature @ [JStr ''id'']) = Inr (JFloat (85 / 2))
   \<and> station_id fractional_source JNull = Inr (JInt 42)
   \<and> \<not> py_eq (JInt 42) (JFloat (85 / 2))
   \<and> get_in lettered_source (first_feature @ [JStr ''id'']) = Inr (JStr ''ST-17'')
   \<and> get_in lettered_source (first_feature @ [JStr ''properties'', JStr ''id'']) = Inr (JInt 17)
   \<and> station_id lettered_source JNull
       = Inl (ValueError (''invalid literal for int() with base 10: '' @ [CHR 0x27] @ ''ST-17'' @ [CHR 0x27]))
   \<and> station_id bare_source JNull = Inl (KeyError (JStr ''geoJSON''))"
  by code_simp

text \<open>
  Claim C8, amended. With no \<^verbatim>\<open>weatherStationId\<close> given, the station step of the
  observation resolver yields 18150029 for \<^verbatim>\<open>info.fruitweb\<close>, 732 for
  \<^verbatim>\<open>net.ipmdecisions.metos\<close>, and for any other source \<^verbatim>\<open>int()\<close> of the first
  feature's \<^verbatim>\<open>id\<close> if the feature has that key, else \<^verbatim>\<open>int()\<close> of its
  \<^verbatim>\<open>properties.id\<close>. For such a source the step fails, with the error of the failing
  operation, when the first feature of the spatial GeoJSON cannot be read, when the
  membership test on the feature fails, when the id that the test selects cannot be read,
  or when \<^verbatim>\<open>int()\<close> rejects it: a rejected top-level id is not replaced by
  \<^verbatim>\<open>properties.id\<close>. The station is the \<^verbatim>\<open>weatherStationId\<close> of every returned
  parameter set. For \<^verbatim>\<open>fi.fmi.observation.station\<close> the set holds
  \<^verbatim>\<open>ignoreErrors\<close>, the caller's value or else \<^verbatim>\<open>True\<close>; for any other source it
  holds no such key.
\<close>

theorem observation_station_id:
  assumes "getitem source (JStr ''id'') = Inr sid"
  shows "(sid = JStr ''info.fruitweb'' \<longrightarrow> station_id source JNull = Inr (JInt 18150029))
       \<and> (sid = JStr ''net.ipmdecisions.metos'' \<longrightarrow> station_id source JNull = Inr (JInt 732))
       \<and> (sid \<noteq> JStr ''info.fruitweb'' \<and> sid \<noteq> JStr ''net.ipmdecisions.metos'' \<longrightarrow>
            (\<forall>sp g fs f0 v n.
               getitem source (JStr ''spatial'') = Inr sp \<and> getitem sp (JStr ''geoJSON'') = Inr g
               \<and> getitem g (JStr ''features'') = Inr fs \<and> getitem fs (JInt 0) = Inr f0
               \<and> contains f0 (JStr ''id'') = Inr True
               \<and> getitem f0 (JStr ''id'') = Inr v \<and> py_int v = Inr n
               \<longrightarrow> station_id source JNull = Inr (JInt n))
          \<and> (\<forall>sp g fs f0 pr v n.
               getitem source (JStr ''spatial'') = Inr sp \<and> getitem sp (JStr ''geoJSON'') = Inr g
               \<and> getitem g (JStr ''features'') = Inr fs \<and> getitem fs (JInt 0) = Inr f0
               \<and> contains f0 (JStr ''id'') = Inr False
               \<and> getitem f0 (JStr ''properties'') = Inr pr
               \<and> getitem pr (JStr ''id'') = Inr v \<and> py_int v = Inr n
               \<longrightarrow> station_id source JNull = Inr (JInt n))
          \<and> (\<forall>e. get_in source first_feature = Inl e \<longrightarrow> station_id source JNull = Inl e)
          \<and> (\<forall>f0 e. get_in source first_feature = Inr f0 \<and> contains f0 (JStr ''id'') = Inl e
               \<longrightarrow> station_id source JNull = Inl e)
          \<and> (\<forall>f0 e. get_in source first_feature = Inr f0 \<and> contains f0 (JStr ''id'') = Inr True
               \<and> getitem f0 (JStr ''id'') = Inl e
               \<longrightarrow> station_id source JNull = Inl e)
          \<and> (\<forall>f0 v e. get_in source first_feature = Inr f0 \<and> contains f0 (JStr ''id'') = Inr True
               \<and> getitem f0 (JStr ''id'') = Inr v \<and> py_int v = Inl e
               \<longrightarrow> station_id source JNull = Inl e)
          \<and> (\<forall>f0 e. get_in source first_feature = Inr f0 \<and> contains f0 (JStr ''id'') = Inr False
               \<and> get_in f0 [JStr ''properties'', JStr ''id''] = Inl e
               \<longrightarrow> station_id source JNull = Inl e)
          \<and> (\<forall>f0 v e. get_in source first_feature = Inr f0 \<and> contains f0 (JStr ''id'') = Inr False
               \<and> get_in f0 [JStr ''properties'', JStr ''id''] = Inr v \<and> py_int v = Inl e
               \<longrightarrow> station_id source JNull = Inl e))
       \<and> (\<forall>params. weatheradapter_observation_params zone source kw = Inr params \<longrightarrow>
            (kwarg kw ''weatherStationId'' JNull = JNull \<longrightarrow>
               (\<exists>w. station_id source JNull = Inr w \<and> map_of params ''weatherStationId'' = Some w))
          \<and> (sid = JStr ''fi.fmi.observation.station'' \<longrightarrow>
               map_of params ''ignoreErrors'' = Some (kwarg kw ''ignoreErrors'' (JBool True)))
          \<and> (sid \<noteq> JStr ''fi.fmi.observation.station'' \<longrightarrow>
               map_of params ''ignoreErrors'' = None))"
proof (intro conjI allI impI; (elim conjE)?)
  fix params
  assume r: "weatheradapter_observation_params zone source kw = Inr params"
  let ?names = "[''interval'', ''parameters'', ''timeStart'', ''timeEnd'', ''weatherStationId'']"
  from r obtain i j w s where
    s: "station_id source (kwarg kw ''weatherStationId'' JNull) = Inr s" and
    p: "(if sid = JStr ''fi.fmi.observation.station''
         then ebind (contains (other_kwargs ?names kw) (JStr ''ignoreErrors'')) (\<lambda>given.
              ebind (if given then getitem (other_kwargs ?names kw) (JStr ''ignoreErrors'')
                     else Inr (JBool True)) (\<lambda>ignoreErrors.
              Inr (AList.update ''ignoreErrors'' ignoreErrors
                (AList.update ''weatherStationId'' s
                  (AList.update ''timeEnd'' (snd w) (AList.update ''timeStart'' (fst w)
                    (AList.update ''parameters'' j (AList.update ''interval'' i []))))))))
         else Inr (AList.update ''weatherStationId'' s
                  (AList.update ''timeEnd'' (snd w) (AList.update ''timeStart'' (fst w)
                    (AList.update ''parameters'' j (AList.update ''interval'' i [])))))) = Inr params"
    using assms
    by (auto simp: weatheradapter_observation_params_def ebind_eq_Inr Let_def split: if_splits)
  { assume "kwarg kw ''weatherStationId'' JNull = JNull"
    then show "\<exists>w. station_id source JNull = Inr w \<and> map_of params ''weatherStationId'' = Some w"
      using s p by (auto simp: ebind_eq_Inr split: if_splits) }
  { assume f: "sid = JStr ''fi.fmi.observation.station''"
    have c: "contains (other_kwargs ?names kw) (JStr ''ignoreErrors'')
               = Inr (''ignoreErrors'' \<in> set (map fst kw))"
      by (rule contains_options) simp
    show "map_of params ''ignoreErrors'' = Some (kwarg kw ''ignoreErrors'' (JBool True))"
    proof (cases "''ignoreErrors'' \<in> set (map fst kw)")
      case True
      have "getitem (other_kwargs ?names kw) (JStr ''ignoreErrors'')
              = Inr (kwarg kw ''ignoreErrors'' (JBool True))"
        by (rule getitem_options) (use True in simp_all)
      then show ?thesis using p f c True by auto
    next
      case False
      then show ?thesis using p f c kwarg_absent [OF False] by auto
    qed }
  { assume "sid \<noteq> JStr ''fi.fmi.observation.station''"
    then show "map_of params ''ignoreErrors'' = None"
      using p by auto }
next
  fix e
  assume "sid \<noteq> JStr ''info.fruitweb''" and "sid \<noteq> JStr ''net.ipmdecisions.metos''"
    and "get_in source first_feature = Inl e"
  then show "station_id source JNull = Inl e"
    using station_id_lookup_fails [OF assms] by blast
next
  fix f0 e
  assume o: "sid \<noteq> JStr ''info.fruitweb''" "sid \<noteq> JStr ''net.ipmdecisions.metos''"
    and f: "get_in source first_feature = Inr f0"
  note st = station_id_feature [OF assms o f]
  { assume "contains f0 (JStr ''id'') = Inl e"
    then show "station_id source JNull = Inl e" using st by simp }
  { assume "contains f0 (JStr ''id'') = Inr True" and "getitem f0 (JStr ''id'') = Inl e"
    then show "station_id source JNull = Inl e" using st by simp }
  { assume "contains f0 (JStr ''id'') = Inr False"
      and "get_in f0 [JStr ''properties'', JStr ''id''] = Inl e"
    then show "station_id source JNull = Inl e" using st by simp }
  { fix v
    assume "contains f0 (JStr ''id'') = Inr True" and "getitem f0 (JStr ''id'') = Inr v"
      and "py_int v = Inl e"
    then show "station_id source JNull = Inl e" using st by simp }
  { fix v
    assume "contains f0 (JStr ''id'') = Inr False"
      and "get_in f0 [JStr ''properties'', JStr ''id''] = Inr v" and "py_int v = Inl e"
    then show "station_id source JNull = Inl e" using st by simp }
qed (use assms in \<open>auto simp: station_id_def\<close>)

text \<open>
  The amended claim at five descriptors: a hard-coded id, a top-level feature id, a
  properties id, an id that \<^verbatim>\<open>int()\<close> rejects, and no GeoJSON.
\<close>

theorem observation_station_id_witness:
  "getitem fruitweb_source (JStr ''id'') = Inr (JStr ''info.fruitweb'')
   \<and> station_id fruitweb_source JNull = Inr (JInt 18150029)
   \<and> getitem fmi_source (JStr ''id'') = Inr (JStr ''fi.fmi.observation.station'')
   \<and> station_id fmi_source JNull = Inr (JInt 101104)
   \<and> (\<exists>params. weatheradapter_observation_params utc_zone fmi_source [] = Inr params
        \<and> map_of params ''weatherStationId'' = Some (JInt 101104)
        \<and> map_of params ''ignoreErrors'' = Some (JBool True))
   \<and> station_id station_source JNull = Inr (JInt 42)
   \<and> py_int (JStr ''ST-17'')
        = Inl (ValueError (''invalid literal for int() with base 10: '' @ [CHR 0x27] @ ''ST-17'' @ [CHR 0x27]))
   \<and> station_id lettered_source JNull
        = Inl (ValueError (''invalid literal for int() with base 10: '' @ [CHR 0x27] @ ''ST-17'' @ [CHR 0x27]))
   \<and> get_in bare_source first_feature = Inl (KeyError (JStr ''geoJSON''))
   \<and> station_id bare_source JNull = Inl (KeyError (JStr ''geoJSON''))"
proof -
  have f: "getitem fruitweb_source (JStr ''id'') = Inr (JStr ''info.fruitweb'')" by code_simp
  have m: "getitem fmi_source (JStr ''id'') = Inr (JStr ''fi.fmi.observation.station'')"
    by code_simp
  have s: "getitem station_source (JStr ''id'') = Inr (JStr ''no.nibio.lmt'')" by code_simp
  obtain params where p: "weatheradapter_observation_params utc_zone fmi_source [] = Inr params"
    by (cases "weatheradapter_observation_params utc_zone fmi_source []") (simp_all, code_simp)
  have k: "kwarg [] ''weatherStationId'' JNull = JNull" "kwarg [] ''ignoreErrors'' (JBool True) = JBool True"
    by (simp_all add: kwarg_def)
  let ?f0 = "JDict [(''id'', JInt 101104), (''properties'', JDict [])]"
  have m1: "getitem fmi_source (JStr ''spatial'') = Inr (JDict [(''geoJSON'', JDict [(''features'', JList [?f0])])])"
    by code_simp
  have m2: "getitem (JDict [(''geoJSON'', JDict [(''features'', JList [?f0])])]) (JStr ''geoJSON'')
              = Inr (JDict [(''features'', JList [?f0])])" by code_simp
  have m3: "getitem (JDict [(''features'', JList [?f0])]) (JStr ''features'') = Inr (JList [?f0])"
    by code_simp
  have m4: "getitem (JList [?f0]) (JInt 0) = Inr ?f0" by code_simp
  have m5: "contains ?f0 (JStr ''id'') = Inr True" by code_simp
  have m6: "getitem ?f0 (JStr ''id'') = Inr (JInt 101104)" by code_simp
  have m7: "py_int (JInt 101104) = Inr 101104" by code_simp
  let ?g0 = "JDict [(''properties'', JDict [(''id'', JStr ''42'')])]"
  have s1: "getitem station_source (JStr ''spatial'') = Inr (JDict [(''geoJSON'', JDict [(''features'', JList [?g0])])])"
    by code_simp
  have s2: "getitem (JDict [(''geoJSON'', JDict [(''features'', JList [?g0])])]) (JStr ''geoJSON'')
              = Inr (JDict [(''features'', JList [?g0])])" by code_simp
  have s3: "getitem (JDict [(''features'', JList [?g0])]) (JStr ''features'') = Inr (JList [?g0])"
    by code_simp
  have s4: "getitem (JList [?g0]) (JInt 0) = Inr ?g0" by code_simp
  have s5: "contains ?g0 (JStr ''id'') = Inr False" by code_simp
  have s6: "getitem ?g0 (JStr ''properties'') = Inr (JDict [(''id'', JStr ''42'')])" by code_simp
  have s7: "getitem (JDict [(''id'', JStr ''42'')]) (JStr ''id'') = Inr (JStr ''42'')" by code_simp
  have s8: "py_int (JStr ''42'') = Inr 42" by code_simp
  let ?h0 = "JDict [(''id'', JStr ''ST-17''), (''properties'', JDict [(''id'', JInt 17)])]"
  let ?bad = "ValueError (''invalid literal for int() with base 10: '' @ [CHR 0x27] @ ''ST-17'' @ [CHR 0x27])"
  have l: "getitem lettered_source (JStr ''id'') = Inr (JStr ''no.nibio.lmt'')" by code_simp
  have l1: "get_in lettered_source first_feature = Inr ?h0" by code_simp
  have l2: "contains ?h0 (JStr ''id'') = Inr True" by code_simp
  have l3: "getitem ?h0 (JStr ''id'') = Inr (JStr ''ST-17'')" by code_simp
  have l4: "py_int (JStr ''ST-17'') = Inl ?bad" by code_simp
  have b: "getitem bare_source (JStr ''id'') = Inr (JStr ''no.nibio.lmt'')" by code_simp
  have b1: "get_in bare_source first_feature = Inl (KeyError (JStr ''geoJSON''))" by code_simp
  have o: "JStr ''fi.fmi.observation.station'' \<noteq> JStr ''info.fruitweb''
             \<and> JStr ''fi.fmi.observation.station'' \<noteq> JStr ''net.ipmdecisions.metos''"
          "JStr ''no.nibio.lmt'' \<noteq> JStr ''info.fruitweb''
             \<and> JStr ''no.nibio.lmt'' \<noteq> JStr ''net.ipmdecisions.metos''" by simp_all
  have A: "station_id fruitweb_source JNull = Inr (JInt 18150029)"
    using observation_station_id [OF f, of utc_zone "[]"] by simp
  note fmi = observation_station_id [OF m, of utc_zone "[]", THEN conjunct2, THEN conjunct2,
      THEN conjunct1, THEN mp, OF o(1)]
  have B: "station_id fmi_source JNull = Inr (JInt 101104)"
    using fmi [THEN conjunct1] m1 m2 m3 m4 m5 m6 m7 by blast
  have C: "map_of params ''weatherStationId'' = Some (JInt 101104)
           \<and> map_of params ''ignoreErrors'' = Some (JBool True)"
    using observation_station_id [OF m, of utc_zone "[]"] p k B by auto
  note st = observation_station_id [OF s, of utc_zone "[]", THEN conjunct2, THEN conjunct2,
      THEN conjunct1, THEN mp, OF o(2)]
  note le = observation_station_id [OF l, of utc_zone "[]", THEN conjunct2, THEN conjunct2,
      THEN conjunct1, THEN mp, OF o(2)]
  note ba = observation_station_id [OF b, of utc_zone "[]", THEN conjunct2, THEN conjunct2,
      THEN conjunct1, THEN mp, OF o(2)]
  have D: "station_id station_source JNull = Inr (JInt 42)"
    using st [THEN conjunct2, THEN conjunct1] s1 s2 s3 s4 s5 s6 s7 s8 by blast
  have E: "station_id lettered_source JNull = Inl ?bad"
    using le [THEN conjunct2, THEN conjunct2, THEN conjunct2, THEN conjunct2,
        THEN conjunct2, THEN conjunct1] l1 l2 l3 l4 by blast
  have F: "station_id bare_source JNull = Inl (KeyError (JStr ''geoJSON''))"
    using ba [THEN conjunct2, THEN conjunct2, THEN conjunct1] b1 by blast
  show ?thesis using f m A B C D E F l4 b1 p by simp
qed

subsection \<open>The time window of the forecast resolver\<close>

text \<open>
  Claim C7. For \<^verbatim>\<open>dk.dmi.pointweather\<close>, a call of the forecast resolver that passes a
  \<^verbatim>\<open>timeStart\<close> option, whatever its value, does not use it: line 209 parses the
  literal text \<^verbatim>\<open>timeStart\<close>, which is no ISO date, and the call fails.
\<close>

theorem forecast_timeStart_option_rejected:
  "weatheradapter_forecast_params now zone pointweather_source [(''timeStart'', v)]
     = Inl (invalid_iso ''timeStart'')"
  by (simp add: weatheradapter_forecast_params_def pointweather_source_def rebinds_positional_def
      kwarg_def resolve_interval_def resolve_parameters_def getitem_def unhashable_def
      index_of_def seq_get_def norm_index_def join_str_def py_iter_def py_str_def
      forecast_window_def other_kwargs_def contains_def py_fromisoformat_def fromisoformat_def
      parse_isoformat_date_def all_digits_def digit_val_def)

subsection \<open>Defaults of the observation resolver\<close>

text \<open>
  Claim C1 fails as stated: the descriptor of the specification's example has the
  intervals, the common parameters and the historic start, and resolving it raises
  \<open>KeyError\<close> for \<^verbatim>\<open>id\<close>; with an id and no GeoJSON it raises \<open>KeyError\<close> for
  \<^verbatim>\<open>geoJSON\<close>.
\<close>

theorem observation_defaults_counterexample:
  "weatheradapter_params noon utc_zone spec_example_source [] = Inl (KeyError (JStr ''id''))
   \<and> weatheradapter_params noon utc_zone unlocated_source [] = Inl (KeyError (JStr ''geoJSON''))"
  by code_simp

text \<open>
  Claim C1, amended. For a stations-type descriptor whose first interval is \<open>i0\<close>,
  whose common parameters join to \<open>joined\<close>, whose historic start parses to \<open>d\<close>,
  whose next two days \<open>d1\<close> and \<open>d2\<close> exist and convert to local time, and whose
  station id resolves to \<open>w\<close>, resolving with no overrides returns a parameter set
  with exactly these: the interval, the joined text, the local ISO text of \<open>d1\<close> and of
  \<open>d2\<close>, and \<open>w\<close>. Each of the two dates is converted with the offset that the
  local zone has at that instant, so the two texts may carry different offsets.
\<close>

theorem observation_defaults:
  assumes "getitem source (JStr ''access_type'') = Inr (JStr ''stations'')"
    and "getitem source (JStr ''temporal'') = Inr t"
    and "getitem t (JStr ''intervals'') = Inr ivs" and "getitem ivs (JInt 0) = Inr i0"
    and "getitem source (JStr ''parameters'') = Inr ps"
    and "getitem ps (JStr ''common'') = Inr common" and "join_str common = Inr joined"
    and "getitem t (JStr ''historic'') = Inr h" and "getitem h (JStr ''start'') = Inr (JStr s)"
    and "fromisoformat s = Inr d"
    and "plus_days d 1 = Inr d1" and "astimezone zone d1 = Inr a1"
    and "plus_days d1 1 = Inr d2" and "astimezone zone d2 = Inr a2"
    and "station_id source JNull = Inr w"
  shows "\<exists>params. weatheradapter_params now zone source [] = Inr params
           \<and> map_of params ''interval'' = Some i0
           \<and> map_of params ''parameters'' = Some joined
           \<and> map_of params ''timeStart'' = Some (JStr (isoformat a1))
           \<and> map_of params ''timeEnd'' = Some (JStr (isoformat a2))
           \<and> map_of params ''weatherStationId'' = Some w"
proof -
  have i: "resolve_interval source JNull = Inr i0"
    using assms by (simp add: resolve_interval_def)
  have j: "resolve_parameters source JNull = Inr joined"
    using assms by (simp add: resolve_parameters_def)
  have win: "observation_window zone source JNull JNull
               = Inr (JStr (isoformat a1), JStr (isoformat a2))"
    using assms by (simp add: observation_window_def local_iso_def py_fromisoformat_def)
  from \<open>station_id source JNull = Inr w\<close> obtain sid
    where sid: "getitem source (JStr ''id'') = Inr sid"
    by (auto simp: station_id_def ebind_eq_Inr)
  have opts: "contains (other_kwargs names []) (JStr ''ignoreErrors'') = Inr False" for names
    by (simp add: contains_def other_kwargs_def unhashable_def)
  show ?thesis
    using assms(1,15) i j win sid opts
    by (auto simp: weatheradapter_params_def weatheradapter_observation_params_def
        rebinds_positional_def kwarg_def Let_def)
qed

text \<open>
  The amended claim at the example descriptor completed with an id and a feature, on a
  machine on UTC, and at a history that starts on 28 March 2020 on a machine in Paris,
  where the clocks change between the two dates of the window.
\<close>

theorem observation_defaults_witness:
  "getitem station_source (JStr ''access_type'') = Inr (JStr ''stations'')
   \<and> station_id station_source JNull = Inr (JInt 42)
   \<and> (\<exists>params. weatheradapter_params noon utc_zone station_source [] = Inr params
        \<and> map_of params ''interval'' = Some (JInt 3600)
        \<and> map_of params ''parameters'' = Some (JStr ''TM'')
        \<and> map_of params ''timeStart'' = Some (JStr ''2020-01-02T00:00:00+00:00'')
        \<and> map_of params ''timeEnd'' = Some (JStr ''2020-01-03T00:00:00+00:00'')
        \<and> map_of params ''weatherStationId'' = Some (JInt 42))
   \<and> getitem spring_source (JStr ''access_type'') = Inr (JStr ''stations'')
   \<and> station_id spring_source JNull = Inr (JInt 42)
   \<and> (\<exists>params. weatheradapter_params noon paris_2020 spring_source [] = Inr params
        \<and> map_of params ''interval'' = Some (JInt 3600)
        \<and> map_of params ''parameters'' = Some (JStr ''TM'')
        \<and> map_of params ''timeStart'' = Some (JStr ''2020-03-29T01:00:00+01:00'')
        \<and> map_of params ''timeEnd'' = Some (JStr ''2020-03-30T02:00:00+02:00'')
        \<and> map_of params ''weatherStationId'' = Some (JInt 42))"
proof -
  let ?t = "JDict [(''intervals'', JList [JInt 3600]),
                   (''historic'', JDict [(''start'', JStr ''2020-01-01T00:00:00+00:00'')])]"
  let ?d = "\<lparr>year = 2020, month = 1, day = 1, hour = 0, minute = 0, second = 0,
             microsecond = 0, tzinfo = Some 0, fold = False\<rparr>"
  have 1: "getitem station_source (JStr ''access_type'') = Inr (JStr ''stations'')"
    by code_simp
  have 2: "getitem station_source (JStr ''temporal'') = Inr ?t" by code_simp
  have 3: "getitem ?t (JStr ''intervals'') = Inr (JList [JInt 3600])" by code_simp
  have 4: "getitem (JList [JInt 3600]) (JInt 0) = Inr (JInt 3600)" by code_simp
  have 5: "getitem station_source (JStr ''parameters'') = Inr (JDict [(''common'', JList [JStr ''TM''])])"
    by code_simp
  have 6: "getitem (JDict [(''common'', JList [JStr ''TM''])]) (JStr ''common'') = Inr (JList [JStr ''TM''])"
    by code_simp
  have 7: "join_str (JList [JStr ''TM'']) = Inr (JStr ''TM'')" by code_simp
  have 8: "getitem ?t (JStr ''historic'') = Inr (JDict [(''start'', JStr ''2020-01-01T00:00:00+00:00'')])"
    by code_simp
  have 9: "getitem (JDict [(''start'', JStr ''2020-01-01T00:00:00+00:00'')]) (JStr ''start'')
             = Inr (JStr ''2020-01-01T00:00:00+00:00'')" by code_simp
  have 10: "fromisoformat ''2020-01-01T00:00:00+00:00'' = Inr ?d" by code_simp
  have 11: "plus_days ?d 1 = Inr (?d\<lparr>day := 2\<rparr>)" by code_simp
  have 12: "astimezone utc_zone (?d\<lparr>day := 2\<rparr>) = Inr (?d\<lparr>day := 2\<rparr>)" by code_simp
  have 13: "plus_days (?d\<lparr>day := 2\<rparr>) 1 = Inr (?d\<lparr>day := 3\<rparr>)" by code_simp
  have 14: "astimezone utc_zone (?d\<lparr>day := 3\<rparr>) = Inr (?d\<lparr>day := 3\<rparr>)" by code_simp
  have 15: "station_id station_source JNull = Inr (JInt 42)" by code_simp
  have a: "isoformat (?d\<lparr>day := 2\<rparr>) = ''2020-01-02T00:00:00+00:00''" by code_simp
  have b: "isoformat (?d\<lparr>day := 3\<rparr>) = ''2020-01-03T00:00:00+00:00''" by code_simp
  let ?u = "JDict [(''intervals'', JList [JInt 3600]),
                   (''historic'', JDict [(''start'', JStr ''2020-03-28T00:00:00+00:00'')])]"
  let ?e = "\<lparr>year = 2020, month = 3, day = 28, hour = 0, minute = 0, second = 0,
             microsecond = 0, tzinfo = Some 0, fold = False\<rparr>"
  have p1: "getitem spring_source (JStr ''access_type'') = Inr (JStr ''stations'')"
    by code_simp
  have p2: "getitem spring_source (JStr ''temporal'') = Inr ?u" by code_simp
  have p3: "getitem ?u (JStr ''intervals'') = Inr (JList [JInt 3600])" by code_simp
  have p5: "getitem spring_source (JStr ''parameters'') = Inr (JDict [(''common'', JList [JStr ''TM''])])"
    by code_simp
  have p8: "getitem ?u (JStr ''historic'') = Inr (JDict [(''start'', JStr ''2020-03-28T00:00:00+00:00'')])"
    by code_simp
  have p9: "getitem (JDict [(''start'', JStr ''2020-03-28T00:00:00+00:00'')]) (JStr ''start'')
             = Inr (JStr ''2020-03-28T00:00:00+00:00'')" by code_simp
  have p10: "fromisoformat ''2020-03-28T00:00:00+00:00'' = Inr ?e" by code_simp
  have p11: "plus_days ?e 1 = Inr (?e\<lparr>day := 29\<rparr>)" by code_simp
  have p12: "astimezone paris_2020 (?e\<lparr>day := 29\<rparr>)
               = Inr (?e\<lparr>day := 29, hour := 1, tzinfo := Some 3600\<rparr>)" by code_simp
  have p13: "plus_days (?e\<lparr>day := 29\<rparr>) 1 = Inr (?e\<lparr>day := 30\<rparr>)" by code_simp
  have p14: "astimezone paris_2020 (?e\<lparr>day := 30\<rparr>)
               = Inr (?e\<lparr>day := 30, hour := 2, tzinfo := Some 7200\<rparr>)" by code_simp
  have p15: "station_id spring_source JNull = Inr (JInt 42)" by code_simp
  have c: "isoformat (?e\<lparr>day := 29, hour := 1, tzinfo := Some 3600\<rparr>) = ''2020-03-29T01:00:00+01:00''"
    by code_simp
  have d: "isoformat (?e\<lparr>day := 30, hour := 2, tzinfo := Some 7200\<rparr>) = ''2020-03-30T02:00:00+02:00''"
    by code_simp
  have utc: "\<exists>params. weatheradapter_params noon utc_zone station_source [] = Inr params
        \<and> map_of params ''interval'' = Some (JInt 3600)
        \<and> map_of params ''parameters'' = Some (JStr ''TM'')
        \<and> map_of params ''timeStart'' = Some (JStr ''2020-01-02T00:00:00+00:00'')
        \<and> map_of params ''timeEnd'' = Some (JStr ''2020-01-03T00:00:00+00:00'')
        \<and> map_of params ''weatherStationId'' = Some (JInt 42)"
    using observation_defaults [OF 1 2 3 4 5 6 7 8 9 10 11 12 13 14 15, of noon]
    unfolding a b by simp
  have paris: "\<exists>params. weatheradapter_params noon paris_2020 spring_source [] = Inr params
        \<and> map_of params ''interval'' = Some (JInt 3600)
        \<and> map_of params ''parameters'' = Some (JStr ''TM'')
        \<and> map_of params ''timeStart'' = Some (JStr ''2020-03-29T01:00:00+01:00'')
        \<and> map_of params ''timeEnd'' = Some (JStr ''2020-03-30T02:00:00+02:00'')
        \<and> map_of params ''weatherStationId'' = Some (JInt 42)"
    using observation_defaults [OF p1 p2 p3 4 p5 6 7 p8 p9 p10 p11 p12 p13 p14 p15, of noon]
    unfolding c d by simp
  show ?thesis
    using 1 15 p1 p15 utc paris by blast
qed

section \<open>Properties of the composer\<close>

lemma getitem_dict:
  "getitem (JDict kvs) (JStr k) = (case map_of kvs k of None \<Rightarrow> Inl (KeyError (JStr k)) | Some v \<Rightarrow> Inr v)"
  by (simp add: getitem_def unhashable_def)

lemma setitem_dict: "setitem (JDict kvs) (JStr k) v = Inr (JDict (AList.update k v kvs))"
  by (simp add: setitem_def unhashable_def)

lemma contains_dict: "contains (JDict kvs) (JStr k) = Inr (k \<in> fst ` set kvs)"
  by (simp add: contains_def unhashable_def)

lemma keys_update: "fst ` set (AList.update k v al) = insert k (fst ` set al)"
  using AList.dom_update [of k v al] by (simp add: dom_map_of_conv_image_fst)

lemma raise_requires:
  "getitem model (JStr ''id'') = Inr (JStr m) \<Longrightarrow>
   raise (requires_error model what) = Inl (ValueError (m @ '' requires '' @ what @ '' as input''))"
  by (simp add: raise_def requires_error_def)

lemma for_each_two:
  "for_each body [x, y] s = ebind (body x s) (body y)"
proof (cases "body x s")
  case (Inr b)
  then show ?thesis by (cases "body y b") simp_all
qed simp

lemma zip_fieldobs:
  "zip fieldobs [a, b] = [(''fieldObservations'', a), (''fieldObservationQuantifications'', b)]"
  by (simp add: fieldobs_def)

lemma succeeds_unit: "map_sum id (\<lambda>_. ()) r = Inr () \<Longrightarrow> \<exists>x. r = Inr x"
  by (cases r) auto

lemma synthesize_example:
  "\<exists>schema config_params. synthesize faker1 model1 JNull = Inr (schema, config_params, skeleton1)"
proof -
  have "map_sum id (\<lambda>t. snd (snd t)) (synthesize faker1 model1 JNull) = Inr skeleton1"
    by code_simp
  then show ?thesis
    by (cases "synthesize faker1 model1 JNull") auto
qed

subsection \<open>Sentinel schemas\<close>

text \<open>
  Claim C6 fails as stated for \<^verbatim>\<open>weatherData\<close>: its sentinel is the fixed token
  \<^verbatim>\<open>{WEATHER_DATA}\<close>, not the property's own name in braces.
\<close>

theorem prepare_schema_sentinels_counterexample:
  "prepared_at model1 [JStr ''properties'', JStr ''weatherData'', JStr ''default'']
     = Inr (JStr ''{WEATHER_DATA}'')
   \<and> prepared_at model1 [JStr ''properties'', JStr ''weatherData'', JStr ''pattern'']
     = Inr (JStr ''^{WEATHER_DATA}$'')
   \<and> ''{WEATHER_DATA}'' \<noteq> ''{'' @ ''weatherData'' @ ''}''"
  by code_simp

text \<open>
  Claim C6, amended. For a model whose input schema, its \<^verbatim>\<open>properties\<close>, its
  \<^verbatim>\<open>configParameters\<close> and the latter's \<^verbatim>\<open>properties\<close> are dicts, the schema handed
  to the generator exists; if \<^verbatim>\<open>weatherData\<close> is a property of the schema, its
  definition is the string schema with pattern \<^verbatim>\<open>^{WEATHER_DATA}$\<close> and default
  \<^verbatim>\<open>{WEATHER_DATA}\<close>; and each of \<^verbatim>\<open>fieldObservations\<close> and
  \<^verbatim>\<open>fieldObservationQuantifications\<close> that is a property of \<^verbatim>\<open>configParameters\<close> is
  defined there as the string schema whose pattern and default are its own name in braces.
\<close>

theorem prepare_schema_sentinels:
  assumes "getitem model (JStr ''execution'') = Inr ex"
    and "getitem ex (JStr ''input_schema'') = Inr (JDict s0)"
    and "map_of s0 ''properties'' = Some (JDict props)"
    and "map_of props ''configParameters'' = Some (JDict cp)"
    and "map_of cp ''properties'' = Some (JDict cpp)"
  shows "\<exists>schema. prepare_schema model = Inr schema
           \<and> (''weatherData'' \<in> fst ` set props \<longrightarrow>
                get_in schema [JStr ''properties'', JStr ''weatherData'']
                  = Inr (JDict [(''type'', JStr ''string''),
                                (''pattern'', JStr ''^{WEATHER_DATA}$''),
                                (''default'', JStr ''{WEATHER_DATA}'')]))
           \<and> (\<forall>p \<in> set fieldobs. p \<in> fst ` set cpp \<longrightarrow>
                get_in schema [JStr ''properties'', JStr ''configParameters'',
                               JStr ''properties'', JStr p]
                  = Inr (JDict [(''type'', JStr ''string''),
                                (''pattern'', JStr (''^{'' @ p @ ''}$'')),
                                (''default'', JStr (''{'' @ p @ ''}''))]))"
  using assms
  by (auto simp: prepare_schema_def py_copy_def config_params_of_def getitem_dict setitem_dict
      contains_dict fieldobs_def mark_fieldobs_def update_conv' py_pop_def keys_update
      map_of_delete AList.delete_eq[symmetric] image_iff
      split: option.splits)

text \<open>The amended claim at an example model that declares \<^verbatim>\<open>weatherData\<close> and \<^verbatim>\<open>fieldObservations\<close>.\<close>

theorem prepare_schema_sentinels_witness:
  "\<exists>schema. prepare_schema model1 = Inr schema
     \<and> get_in schema [JStr ''properties'', JStr ''weatherData'']
          = Inr (JDict [(''type'', JStr ''string''), (''pattern'', JStr ''^{WEATHER_DATA}$''),
                        (''default'', JStr ''{WEATHER_DATA}'')])
     \<and> get_in schema [JStr ''properties'', JStr ''configParameters'', JStr ''properties'',
                         JStr ''fieldObservations'']
          = Inr (JDict [(''type'', JStr ''string''), (''pattern'', JStr ''^{fieldObservations}$''),
                        (''default'', JStr ''{fieldObservations}'')])"
proof -
  let ?cpp = "[(''timeZone'', JDict [(''type'', JStr ''string''), (''default'', JStr ''Europe/Oslo'')]),
               (''threshold'', JDict [(''type'', JStr ''number'')]),
               (''fieldObservations'', JDict [(''type'', JStr ''array'')])]"
  let ?cp = "[(''properties'', JDict ?cpp)]"
  let ?props = "[(''configParameters'', JDict ?cp),
                 (''weatherData'', JDict [(''$ref'', JStr ''https://x/schema/weatherdata'')])]"
  let ?s0 = "[(''type'', JStr ''object''), (''properties'', JDict ?props), (''definitions'', JDict [])]"
  let ?ex = "JDict [(''input_schema'', JDict ?s0)]"
  have 1: "getitem model1 (JStr ''execution'') = Inr ?ex" by code_simp
  have 2: "getitem ?ex (JStr ''input_schema'') = Inr (JDict ?s0)" by code_simp
  have 3: "map_of ?s0 ''properties'' = Some (JDict ?props)" by simp
  have 4: "map_of ?props ''configParameters'' = Some (JDict ?cp)" by simp
  have 5: "map_of ?cp ''properties'' = Some (JDict ?cpp)" by simp
  have 6: "''weatherData'' \<in> fst ` set ?props" by simp
  have 7: "''fieldObservations'' \<in> set fieldobs" "''fieldObservations'' \<in> fst ` set ?cpp"
    by (simp_all add: fieldobs_def)
  from prepare_schema_sentinels [OF 1 2 3 4 5] obtain schema where
    s: "prepare_schema model1 = Inr schema"
    and w: "''weatherData'' \<in> fst ` set ?props \<longrightarrow>
            get_in schema [JStr ''properties'', JStr ''weatherData'']
              = Inr (JDict [(''type'', JStr ''string''), (''pattern'', JStr ''^{WEATHER_DATA}$''),
                            (''default'', JStr ''{WEATHER_DATA}'')])"
    and f: "\<forall>p \<in> set fieldobs. p \<in> fst ` set ?cpp \<longrightarrow>
            get_in schema [JStr ''properties'', JStr ''configParameters'', JStr ''properties'', JStr p]
              = Inr (JDict [(''type'', JStr ''string''), (''pattern'', JStr (''^{'' @ p @ ''}$'')),
                            (''default'', JStr (''{'' @ p @ ''}''))])"
    by blast
  from f 7 have "get_in schema [JStr ''properties'', JStr ''configParameters'', JStr ''properties'',
                         JStr ''fieldObservations'']
          = Inr (JDict [(''type'', JStr ''string''), (''pattern'', JStr (''^{'' @ ''fieldObservations'' @ ''}$'')),
                        (''default'', JStr (''{'' @ ''fieldObservations'' @ ''}''))])"
    by blast
  then show ?thesis using s w 6 by simp
qed

subsection \<open>Missing inputs\<close>

text \<open>
  Claim C3 fails as stated: the schema of the example model declares \<^verbatim>\<open>weatherData\<close>,
  the generated skeleton leaves that optional property out, and composing without weather
  data returns a document.
\<close>

theorem missing_required_input_counterexample:
  "prepared_at model1 [JStr ''properties'', JStr ''weatherData'', JStr ''type''] = Inr (JStr ''string'')
   \<and> model_input faker2 model1 JNull JNull JNull JNull
     = Inr (JDict [(''configParameters'',
                    JDict [(''timeZone'', JStr ''Europe/Oslo''), (''threshold'', JInt 7)])])"
  by code_simp

text \<open>
  Claim C3, amended. For a model whose \<^verbatim>\<open>id\<close> is the string \<open>m\<close>: when the skeleton
  contains \<^verbatim>\<open>weatherData\<close> and no weather data is given, the weather step, and the whole
  composition once lines 841 to 877 have run, raise \<open>ValueError\<close> with the message
  \<open>m\<close> \<^verbatim>\<open>requires WeatherData as input\<close>; when the skeleton's \<^verbatim>\<open>configParameters\<close>
  contain \<open>p\<close> and its argument is \<^verbatim>\<open>None\<close>, the step for \<open>p\<close>, and the composition
  once the earlier steps have run, raise \<open>ValueError\<close> with \<open>m\<close>
  \<^verbatim>\<open>requires\<close> \<open>p\<close> \<^verbatim>\<open>as input\<close>; a value given for a property that neither the
  skeleton nor the schema has leaves the document as it is.
\<close>

theorem missing_required_input:
  assumes "getitem model (JStr ''id'') = Inr (JStr m)"
  shows "(contains input (JStr ''weatherData'') = Inr True \<longrightarrow>
            inject_weather model schema required interval JNull input
              = Inl (ValueError (m @ '' requires WeatherData as input'')))
       \<and> (\<forall>ic. getitem input (JStr ''configParameters'') = Inr ic
                 \<and> contains ic (JStr p) = Inr True \<longrightarrow>
            inject_fieldobs model config_params (p, JNull) input
              = Inl (ValueError (m @ '' requires '' @ p @ '' as input'')))
       \<and> (\<forall>props. contains input (JStr ''weatherData'') = Inr False
                 \<and> getitem schema (JStr ''properties'') = Inr props
                 \<and> contains props (JStr ''weatherData'') = Inr False \<longrightarrow>
            inject_weather model schema required interval weather_data input = Inr input)
       \<and> (\<forall>ic cpp. getitem input (JStr ''configParameters'') = Inr ic
                 \<and> contains ic (JStr p) = Inr False
                 \<and> getitem config_params (JStr ''properties'') = Inr cpp
                 \<and> contains cpp (JStr p) = Inr False \<longrightarrow>
            inject_fieldobs model config_params (p, pvalue) input = Inr input)
       \<and> (\<forall>sc cp required' interval'.
               synthesize faker model parameters = Inr (sc, cp, input)
                 \<and> weather_requirements model = Inr (required', interval')
                 \<and> contains input (JStr ''weatherData'') = Inr True \<longrightarrow>
            model_input faker model parameters JNull fo foq
              = Inl (ValueError (m @ '' requires WeatherData as input'')))
       \<and> (\<forall>sc cp required' interval' input' ic.
               synthesize faker model parameters = Inr (sc, cp, input)
                 \<and> weather_requirements model = Inr (required', interval')
                 \<and> inject_weather model sc required' interval' weather_data input = Inr input'
                 \<and> getitem input' (JStr ''configParameters'') = Inr ic
                 \<and> contains ic (JStr ''fieldObservations'') = Inr True \<longrightarrow>
            model_input faker model parameters weather_data JNull foq
              = Inl (ValueError (m @ '' requires fieldObservations as input'')))
       \<and> (\<forall>sc cp required' interval' input' input'' ic.
               synthesize faker model parameters = Inr (sc, cp, input)
                 \<and> weather_requirements model = Inr (required', interval')
                 \<and> inject_weather model sc required' interval' weather_data input = Inr input'
                 \<and> inject_fieldobs model cp (''fieldObservations'', fo) input' = Inr input''
                 \<and> getitem input'' (JStr ''configParameters'') = Inr ic
                 \<and> contains ic (JStr ''fieldObservationQuantifications'') = Inr True \<longrightarrow>
            model_input faker model parameters weather_data fo JNull
              = Inl (ValueError (m @ '' requires fieldObservationQuantifications as input'')))"
  using assms
  by (auto simp: inject_weather_def inject_fieldobs_def raise_requires model_input_def
      for_each_two zip_fieldobs)

text \<open>The amended claim C3 at the example model, composed without weather data.\<close>

theorem missing_required_input_witness:
  "getitem model1 (JStr ''id'') = Inr (JStr ''no.nibio.vips.model.X'')
   \<and> contains skeleton1 (JStr ''weatherData'') = Inr True
   \<and> model_input faker1 model1 JNull JNull JNull JNull
       = Inl (ValueError ''no.nibio.vips.model.X requires WeatherData as input'')"
proof -
  obtain schema config_params where
    syn: "synthesize faker1 model1 JNull = Inr (schema, config_params, skeleton1)"
    using synthesize_example by blast
  have i: "getitem model1 (JStr ''id'') = Inr (JStr ''no.nibio.vips.model.X'')" by code_simp
  have r: "weather_requirements model1 = Inr ([JStr ''TM''], JInt 3600)" by code_simp
  have c: "contains skeleton1 (JStr ''weatherData'') = Inr True" by code_simp
  have "model_input faker1 model1 JNull JNull JNull JNull
       = Inl (ValueError (''no.nibio.vips.model.X'' @ '' requires WeatherData as input''))"
    using missing_required_input [OF i, where input = skeleton1 and faker = faker1
        and parameters = JNull and fo = JNull and foq = JNull and p = "''fieldObservations''"
        and schema = schema and required = "[]" and interval = JNull
        and config_params = config_params and weather_data = JNull and pvalue = JNull] syn r c
    by blast
  then show ?thesis using i c by simp
qed

subsection \<open>Weather data against the declared requirements\<close>

lemma container_contains: "container c \<Longrightarrow> \<exists>b. contains c (JStr k) = Inr b"
  by (cases c) (simp_all add: container_def contains_def unhashable_def)

lemma contains_container: "contains c x = Inr b \<Longrightarrow> container c"
  by (cases c) (simp_all add: container_def contains_def)

lemma setitem_container: "setitem c k v = Inr out \<Longrightarrow> container out"
  by (cases c) (auto simp: setitem_def container_def split: json.splits if_splits option.splits)

lemma config_step_container:
  "container input \<Longrightarrow> config_step cp prm p input = Inr out \<Longrightarrow> container out"
  by (auto simp: config_step_def ebind_eq_Inr split: if_splits dest: setitem_container)

lemma config_loop_container:
  "container input \<Longrightarrow> config_loop cp prm n i input = Inr out \<Longrightarrow> container out"
proof (induction n arbitrary: i input)
  case 0
  then show ?case by simp
next
  case (Suc n)
  from Suc.prems(2) obtain ic where
    ic: "getitem input (JStr ''configParameters'') = Inr ic" and
    r: "(case item_at ic i of None \<Rightarrow> Inr input
         | Some p \<Rightarrow> ebind (config_step cp prm p input) (config_loop cp prm n (Suc i))) = Inr out"
    by (auto simp: ebind_eq_Inr)
  show ?case
  proof (cases "item_at ic i")
    case None
    then show ?thesis using r Suc.prems(1) by simp
  next
    case (Some p)
    with r obtain mid where "config_step cp prm p input = Inr mid"
      and "config_loop cp prm n (Suc i) mid = Inr out"
      by (auto simp: ebind_eq_Inr)
    then show ?thesis
      using Suc.IH [of mid "Suc i"] config_step_container [OF Suc.prems(1)] by blast
  qed
qed

lemma apply_parameters_container:
  "apply_parameters cp prm input = Inr out \<Longrightarrow> container out"
  by (auto simp: apply_parameters_def Let_def ebind_eq_Inr split: if_splits
      dest: contains_container config_loop_container)

lemma synthesize_container:
  "synthesize faker model parameters = Inr (schema, cp, input) \<Longrightarrow> container input"
  by (auto simp: synthesize_def ebind_eq_Inr dest: apply_parameters_container)

lemma contains_list: "contains (JList xs) x = Inr (list_ex (\<lambda>y. py_eq y x) xs)"
  by (simp add: contains_def)

lemma all_codes_in_True_iff:
  "all_codes_in required wd = Inr True \<longleftrightarrow>
   (\<forall>code \<in> set required. \<exists>wp. getitem wd (JStr ''weatherParameters'') = Inr wp
                                \<and> contains wp code = Inr True)"
proof (induction required)
  case Nil
  show ?case by simp
next
  case (Cons code rest)
  show ?case
  proof (cases "getitem wd (JStr ''weatherParameters'')")
    case (Inl e)
    then show ?thesis by auto
  next
    case wp: (Inr wp)
    show ?thesis
    proof (cases "contains wp code")
      case (Inl e)
      then show ?thesis using wp by simp
    next
      case (Inr found)
      then show ?thesis using wp Cons.IH by (cases found) auto
    qed
  qed
qed

lemma all_codes_in_list:
  "getitem wd (JStr ''weatherParameters'') = Inr (JList present) \<Longrightarrow>
   all_codes_in required wd = Inr (\<forall>code \<in> set required. list_ex (\<lambda>c. py_eq c code) present)"
  by (induction required) (auto simp: contains_list)

lemma check_weather_ok_iff:
  "check_weather msg required interval wd = Inr u \<longleftrightarrow>
   all_codes_in required wd = Inr True
   \<and> (\<exists>wi. getitem wd (JStr ''interval'') = Inr wi \<and> py_eq interval wi)"
proof (cases "all_codes_in required wd")
  case (Inl e)
  then show ?thesis by (simp add: check_weather_def)
next
  case (Inr ok)
  then show ?thesis
    by (cases ok; cases "missing_codes required wd"; cases "getitem wd (JStr ''interval'')")
       (auto simp: check_weather_def)
qed

lemma inject_weather_checked:
  assumes "weather_data \<noteq> JNull"
    and "contains input (JStr ''weatherData'') = Inr True
         \<or> (\<exists>props. getitem schema (JStr ''properties'') = Inr props
                    \<and> contains props (JStr ''weatherData'') = Inr True)"
  shows "inject_weather model schema required interval weather_data input =
           ebind (check_weather (if contains input (JStr ''weatherData'') = Inr True
                                 then ''WeatherData parameter are missing: ''
                                 else ''Some weatherdata parameter are missing'')
                    required interval weather_data)
             (\<lambda>_. setitem input (JStr ''weatherData'') weather_data)
         \<or> (\<exists>e. contains input (JStr ''weatherData'') = Inl e
                \<and> inject_weather model schema required interval weather_data input = Inl e)"
proof (cases "contains input (JStr ''weatherData'')")
  case (Inl e)
  then show ?thesis by (simp add: inject_weather_def)
next
  case (Inr b)
  then show ?thesis using assms by (cases b) (auto simp: inject_weather_def)
qed

lemma model_input_after_synthesis:
  assumes "synthesize faker model parameters = Inr (schema, config_params, input)"
    and "weather_requirements model = Inr (required, interval)"
  shows "model_input faker model parameters weather_data fo foq =
           ebind (inject_weather model schema required interval weather_data input)
             (for_each (inject_fieldobs model config_params) (zip fieldobs [fo, foq]))"
  using assms by (simp add: model_input_def)

text \<open>
  Claim C2. Let the model declare the weather parameters \<open>first # others\<close>, with
  codes \<open>required\<close> and first interval \<open>interval\<close>, and let weather data be given
  and injected (the skeleton contains \<^verbatim>\<open>weatherData\<close>, or the schema declares it). If
  composition returns a document, every required code is in the data's
  \<^verbatim>\<open>weatherParameters\<close> and the data's interval equals \<open>interval\<close>. If a code is
  missing, composition fails with an \<open>AssertionError\<close> that carries exactly the missing
  codes; if all codes are there and the intervals differ, it fails with the
  \<open>AssertionError\<close> on the interval.
\<close>

theorem weather_compatibility:
  assumes syn: "synthesize faker model parameters = Inr (schema, config_params, input)"
    and decl: "getitem model (JStr ''input'') = Inr inp"
              "getitem inp (JStr ''weather_parameters'') = Inr (JList (first # others))"
              "map_result (\<lambda>item. getitem item (JStr ''parameter_code'')) (first # others) = Inr required"
              "getitem first (JStr ''interval'') = Inr interval"
    and wd: "weather_data \<noteq> JNull"
    and inj: "contains input (JStr ''weatherData'') = Inr True
              \<or> (\<exists>props. getitem schema (JStr ''properties'') = Inr props
                         \<and> contains props (JStr ''weatherData'') = Inr True)"
  shows "(\<forall>out. model_input faker model parameters weather_data fo foq = Inr out \<longrightarrow>
            (\<forall>code \<in> set required. \<exists>wp. getitem weather_data (JStr ''weatherParameters'') = Inr wp
                                         \<and> contains wp code = Inr True)
            \<and> (\<exists>wi. getitem weather_data (JStr ''interval'') = Inr wi \<and> py_eq interval wi))
       \<and> (\<forall>present. getitem weather_data (JStr ''weatherParameters'') = Inr (JList present)
              \<and> \<not> list_ex unhashable required \<and> \<not> list_ex unhashable present
              \<and> (\<exists>code \<in> set required. \<not> list_ex (\<lambda>c. py_eq c code) present) \<longrightarrow>
            (\<exists>msg. model_input faker model parameters weather_data fo foq
                     = Inl (AssertionError msg
                         (filter (\<lambda>code. \<not> list_ex (\<lambda>c. py_eq c code) present) required))))
       \<and> (\<forall>wi. (\<forall>code \<in> set required. \<exists>wp. getitem weather_data (JStr ''weatherParameters'') = Inr wp
                                            \<and> contains wp code = Inr True)
              \<and> getitem weather_data (JStr ''interval'') = Inr wi \<and> \<not> py_eq interval wi \<longrightarrow>
            model_input faker model parameters weather_data fo foq
              = Inl (AssertionError ''weatherdata interval is not fullfilling model requirements'' []))"
proof -
  have "getitem (JList (first # others)) (JInt 0) = Inr first"
    by (simp add: getitem_def index_of_def seq_get_def norm_index_def)
  then have req: "weather_requirements model = Inr (required, interval)"
    using decl by (simp add: weather_requirements_def py_iter_def)
  note mi = model_input_after_synthesis [OF syn req, of weather_data fo foq]
  from inject_weather_checked [OF wd inj, of model required interval]
  obtain msg where
    iw: "inject_weather model schema required interval weather_data input =
           ebind (check_weather msg required interval weather_data)
             (\<lambda>_. setitem input (JStr ''weatherData'') weather_data)
         \<or> (\<exists>e. inject_weather model schema required interval weather_data input = Inl e
                \<and> contains input (JStr ''weatherData'') = Inl e)"
    by blast
  have "container input"
    using syn by (rule synthesize_container)
  then obtain b where b: "contains input (JStr ''weatherData'') = Inr b"
    using container_contains by blast
  with iw have iw': "inject_weather model schema required interval weather_data input =
           ebind (check_weather msg required interval weather_data)
             (\<lambda>_. setitem input (JStr ''weatherData'') weather_data)"
    by auto
  have 1: "(\<forall>code \<in> set required. \<exists>wp. getitem weather_data (JStr ''weatherParameters'') = Inr wp
                                         \<and> contains wp code = Inr True)
            \<and> (\<exists>wi. getitem weather_data (JStr ''interval'') = Inr wi \<and> py_eq interval wi)"
    if "model_input faker model parameters weather_data fo foq = Inr out" for out
  proof -
    from that mi iw' obtain u where "check_weather msg required interval weather_data = Inr u"
      by (auto simp: ebind_eq_Inr)
    then show ?thesis
      by (simp add: check_weather_ok_iff all_codes_in_True_iff)
  qed
  have 2: "\<exists>msg. model_input faker model parameters weather_data fo foq
                     = Inl (AssertionError msg
                         (filter (\<lambda>code. \<not> list_ex (\<lambda>c. py_eq c code) present) required))"
    if "getitem weather_data (JStr ''weatherParameters'') = Inr (JList present)"
      and "\<not> list_ex unhashable required" and "\<not> list_ex unhashable present"
      and "\<exists>code \<in> set required. \<not> list_ex (\<lambda>c. py_eq c code) present" for present
  proof -
    have "all_codes_in required weather_data = Inr False"
      using that(1,4) by (simp add: all_codes_in_list)
    moreover have "missing_codes required weather_data
        = Inr (filter (\<lambda>code. \<not> list_ex (\<lambda>c. py_eq c code) present) required)"
      using that(1,2,3) by (simp add: missing_codes_def py_iter_def)
    ultimately have "check_weather msg required interval weather_data
        = Inl (AssertionError msg (filter (\<lambda>code. \<not> list_ex (\<lambda>c. py_eq c code) present) required))"
      by (simp add: check_weather_def)
    then show ?thesis using mi iw' by auto
  qed
  have 3: "model_input faker model parameters weather_data fo foq
              = Inl (AssertionError ''weatherdata interval is not fullfilling model requirements'' [])"
    if "\<forall>code \<in> set required. \<exists>wp. getitem weather_data (JStr ''weatherParameters'') = Inr wp
                                            \<and> contains wp code = Inr True"
      and "getitem weather_data (JStr ''interval'') = Inr wi" and "\<not> py_eq interval wi" for wi
  proof -
    have "all_codes_in required weather_data = Inr True"
      using that(1) by (simp add: all_codes_in_True_iff)
    then have "check_weather msg required interval weather_data
        = Inl (AssertionError ''weatherdata interval is not fullfilling model requirements'' [])"
      using that(2,3) by (simp add: check_weather_def)
    then show ?thesis using mi iw' by auto
  qed
  show ?thesis using 1 2 3 by blast
qed

text \<open>
  Claim C2 at the specification's example: declared \<^verbatim>\<open>TM\<close> at 3600, data with
  \<^verbatim>\<open>TM\<close> and \<^verbatim>\<open>RH\<close>; interval 7200 fails, interval 3600 is injected.
\<close>

theorem weather_compatibility_witness:
  "weather2 \<noteq> JNull
   \<and> contains skeleton1 (JStr ''weatherData'') = Inr True
   \<and> model_input faker1 model1 JNull weather2 (JList []) JNull
       = Inl (AssertionError ''weatherdata interval is not fullfilling model requirements'' [])
   \<and> (\<exists>out. model_input faker1 model1 JNull weather1 (JList []) JNull = Inr out
          \<and> getitem out (JStr ''weatherData'') = Inr weather1)"
proof -
  let ?first = "JDict [(''parameter_code'', JStr ''TM''), (''interval'', JInt 3600)]"
  let ?inp = "JDict [(''weather_parameters'', JList [?first])]"
  obtain schema config_params where
    syn: "synthesize faker1 model1 JNull = Inr (schema, config_params, skeleton1)"
    using synthesize_example by blast
  have d1: "getitem model1 (JStr ''input'') = Inr ?inp" by code_simp
  have d2: "getitem ?inp (JStr ''weather_parameters'') = Inr (JList (?first # []))" by code_simp
  have d3: "map_result (\<lambda>item. getitem item (JStr ''parameter_code'')) (?first # []) = Inr [JStr ''TM'']"
    by code_simp
  have d4: "getitem ?first (JStr ''interval'') = Inr (JInt 3600)" by code_simp
  have w2: "weather2 \<noteq> JNull" by (simp add: weather2_def)
  have c: "contains skeleton1 (JStr ''weatherData'') = Inr True" by code_simp
  have inj: "contains skeleton1 (JStr ''weatherData'') = Inr True
             \<or> (\<exists>props. getitem schema (JStr ''properties'') = Inr props
                        \<and> contains props (JStr ''weatherData'') = Inr True)"
    using c by simp
  have p: "\<forall>code \<in> set [JStr ''TM'']. \<exists>wp. getitem weather2 (JStr ''weatherParameters'') = Inr wp
                                         \<and> contains wp code = Inr True"
  proof -
    have "getitem weather2 (JStr ''weatherParameters'') = Inr (JList [JStr ''TM'', JStr ''RH''])
          \<and> contains (JList [JStr ''TM'', JStr ''RH'']) (JStr ''TM'') = Inr True"
      by code_simp
    then show ?thesis by simp
  qed
  have i: "getitem weather2 (JStr ''interval'') = Inr (JInt 7200)" by code_simp
  have n: "\<not> py_eq (JInt 3600) (JInt 7200)" by code_simp
  have bad: "model_input faker1 model1 JNull weather2 (JList []) JNull
       = Inl (AssertionError ''weatherdata interval is not fullfilling model requirements'' [])"
    using weather_compatibility [OF syn d1 d2 d3 d4 w2 inj, of "JList []" JNull] p i n by blast
  have ok: "model_input faker1 model1 JNull weather1 (JList []) JNull
       = Inr (JDict [(''configParameters'',
                      JDict [(''timeZone'', JStr ''Europe/Oslo''), (''threshold'', JInt 7),
                             (''fieldObservations'', JList [])]),
                     (''weatherData'', weather1)])"
    by code_simp
  have "getitem (JDict [(''configParameters'',
                      JDict [(''timeZone'', JStr ''Europe/Oslo''), (''threshold'', JInt 7),
                             (''fieldObservations'', JList [])]),
                     (''weatherData'', weather1)]) (JStr ''weatherData'') = Inr weather1"
    by (simp add: getitem_dict)
  then show ?thesis using w2 c bad ok by simp
qed

subsection \<open>Priority of overrides, defaults and fake values\<close>

lemma priority_value_idem:
  "priority_value prm cp k (priority_value prm cp k old) = priority_value prm cp k old"
  by (simp add: priority_value_def split: option.splits sum.splits)

lemma absent_not_subscriptable:
  "contains c (JStr k) = Inr False \<Longrightarrow> \<exists>e. getitem c (JStr k) = Inl e"
  by (cases c)
     (auto simp: contains_def getitem_def unhashable_def index_of_def map_of_eq_None_iff
       split: if_splits option.splits)

lemma config_step_dict:
  assumes doc: "map_of doc ''configParameters'' = Some (JDict kvs)"
    and old: "map_of kvs k = Some old"
    and step: "config_step cp (JDict prm) (JStr k) (JDict doc) = Inr out"
  shows "out = JDict (AList.update ''configParameters''
                 (JDict (AList.update k (priority_value prm cp k old) kvs)) doc)"
proof (cases "map_of prm k")
  case (Some v)
  then have "k \<in> fst ` set prm" by (metis domI dom_map_of_conv_image_fst)
  then show ?thesis
    using step Some doc
    by (simp add: config_step_def contains_dict getitem_dict setitem_dict priority_value_def)
next
  case None
  then have nk: "k \<notin> fst ` set prm" by (simp add: map_of_eq_None_iff)
  from step nk obtain cpp ps hasd where
    cpp: "getitem cp (JStr ''properties'') = Inr cpp" and
    ps: "getitem cpp (JStr k) = Inr ps" and
    hasd: "contains ps (JStr ''default'') = Inr hasd" and
    r: "(if hasd then ebind (getitem ps (JStr ''default''))
                       (\<lambda>d. set_in (JDict doc) [JStr ''configParameters'', JStr k] d)
         else Inr (JDict doc)) = Inr out"
    by (auto simp: config_step_def contains_dict ebind_eq_Inr)
  have g: "get_in cp [JStr ''properties'', JStr k, JStr ''default''] = getitem ps (JStr ''default'')"
    using cpp ps by (cases "getitem ps (JStr ''default'')") simp_all
  show ?thesis
  proof (cases hasd)
    case True
    with r obtain d where d: "getitem ps (JStr ''default'') = Inr d"
      and "set_in (JDict doc) [JStr ''configParameters'', JStr k] d = Inr out"
      by (auto simp: ebind_eq_Inr)
    then show ?thesis
      using doc None g by (simp add: getitem_dict setitem_dict priority_value_def)
  next
    case False
    with hasd have "contains ps (JStr ''default'') = Inr False" by simp
    then obtain e where "getitem ps (JStr ''default'') = Inl e"
      using absent_not_subscriptable by blast
    then have "priority_value prm cp k old = old"
      using None g by (simp add: priority_value_def)
    moreover have "out = JDict doc" using r False by simp
    ultimately show ?thesis
      using doc old by (simp add: update_triv)
  qed
qed

lemma config_loop_dict:
  assumes "map_of doc ''configParameters'' = Some (JDict kvs)"
    and "i + n = length kvs"
    and "config_loop cp (JDict prm) n i (JDict doc) = Inr out"
  shows "\<exists>kvs'. out = JDict (AList.update ''configParameters'' (JDict kvs') doc)
           \<and> map fst kvs' = map fst kvs
           \<and> (\<forall>k. map_of kvs' k =
                 (if k \<in> fst ` set (drop i kvs)
                  then Some (priority_value prm cp k (the (map_of kvs k)))
                  else map_of kvs k))"
  using assms
proof (induction n arbitrary: i doc kvs)
  case 0
  then show ?case
    by (intro exI [of _ kvs]) (simp add: update_triv)
next
  case (Suc n)
  let ?k = "fst (kvs ! i)"
  have i: "i < length kvs" using Suc.prems(2) by simp
  then have kin: "?k \<in> fst ` set kvs" by (metis image_eqI nth_mem)
  then obtain old where old: "map_of kvs ?k = Some old"
    by (metis map_of_eq_None_iff not_Some_eq)
  let ?v = "priority_value prm cp ?k old"
  let ?kvs1 = "AList.update ?k ?v kvs"
  let ?doc1 = "AList.update ''configParameters'' (JDict ?kvs1) doc"
  have item: "item_at (JDict kvs) i = Some (JStr ?k)"
    using i by (simp add: item_at_def)
  from Suc.prems(3) obtain mid where
    step: "config_step cp (JDict prm) (JStr ?k) (JDict doc) = Inr mid" and
    rest: "config_loop cp (JDict prm) n (Suc i) mid = Inr out"
    using Suc.prems(1) item by (auto simp: getitem_dict ebind_eq_Inr)
  have mid: "mid = JDict ?doc1"
    using config_step_dict [OF Suc.prems(1) old step] .
  have keys1: "map fst ?kvs1 = map fst kvs"
    using kin by (simp add: update_keys)
  have doc1: "map_of ?doc1 ''configParameters'' = Some (JDict ?kvs1)"
    by (simp add: update_conv')
  have len: "Suc i + n = length ?kvs1"
    using Suc.prems(2) keys1 by (metis add_Suc add_Suc_right length_map)
  from Suc.IH [OF doc1 len] rest mid obtain kvs' where
    out: "out = JDict (AList.update ''configParameters'' (JDict kvs') ?doc1)" and
    keys: "map fst kvs' = map fst ?kvs1" and
    vals: "\<forall>k. map_of kvs' k =
             (if k \<in> fst ` set (drop (Suc i) ?kvs1)
              then Some (priority_value prm cp k (the (map_of ?kvs1 k)))
              else map_of ?kvs1 k)"
    by blast
  have later: "fst ` set (drop (Suc i) ?kvs1) = fst ` set (drop (Suc i) kvs)"
    using keys1 by (metis drop_map set_map)
  have now: "fst ` set (drop i kvs) = insert ?k (fst ` set (drop (Suc i) kvs))"
    using i by (metis Cons_nth_drop_Suc image_insert list.simps(15))
  have "\<forall>k. map_of kvs' k =
          (if k \<in> fst ` set (drop i kvs)
           then Some (priority_value prm cp k (the (map_of kvs k)))
           else map_of kvs k)"
  proof
    fix k
    show "map_of kvs' k =
          (if k \<in> fst ` set (drop i kvs)
           then Some (priority_value prm cp k (the (map_of kvs k)))
           else map_of kvs k)"
    proof (cases "k = ?k")
      case True
      then show ?thesis
        using vals later now old by (simp add: update_conv' priority_value_idem)
    next
      case False
      then show ?thesis
        using vals later now by (simp add: update_conv')
    qed
  qed
  then show ?case
    using out keys keys1 by (intro exI [of _ kvs']) simp
qed

lemma apply_parameters_dict:
  assumes "map_of doc ''configParameters'' = Some (JDict kvs)"
    and "(parameters = JNull \<and> prm = []) \<or> parameters = JDict prm"
    and "apply_parameters cp parameters (JDict doc) = Inr out"
  shows "\<exists>doc' kvs'. out = JDict doc' \<and> map_of doc' ''configParameters'' = Some (JDict kvs')
           \<and> (\<forall>k \<in> fst ` set kvs.
                 map_of kvs' k = Some (priority_value prm cp k (the (map_of kvs k))))"
proof -
  have p: "(if parameters = JNull then JDict [] else parameters) = JDict prm"
    using assms(2) by auto
  have "doc \<noteq> []" using assms(1) by auto
  have "''configParameters'' \<in> fst ` set doc"
    using assms(1) by (metis map_of_eq_None_iff option.distinct(1))
  then have "config_loop cp (JDict prm) (length kvs) 0 (JDict doc) = Inr out"
    using assms(1,3) p
    by (simp add: apply_parameters_def contains_dict getitem_dict py_iter_def)
  from config_loop_dict [OF assms(1) _ this] obtain kvs' where
    "out = JDict (AList.update ''configParameters'' (JDict kvs') doc)"
    "\<forall>k. map_of kvs' k =
         (if k \<in> fst ` set (drop 0 kvs)
          then Some (priority_value prm cp k (the (map_of kvs k)))
          else map_of kvs k)"
    by auto
  then show ?thesis
    by (intro exI [of _ "AList.update ''configParameters'' (JDict kvs') doc"] exI [of _ kvs'])
       (simp add: update_conv')
qed

lemma inject_weather_keeps_config:
  assumes "map_of doc ''configParameters'' = Some c"
    and "inject_weather model schema required interval wd (JDict doc) = Inr out"
  shows "\<exists>doc'. out = JDict doc' \<and> map_of doc' ''configParameters'' = Some c"
  using assms
  by (auto simp: inject_weather_def contains_dict ebind_eq_Inr setitem_dict raise_def update_conv'
      split: if_splits sum.splits)

lemma inject_fieldobs_keeps_others:
  assumes "map_of doc ''configParameters'' = Some (JDict kvs)"
    and "inject_fieldobs model cp (p, pvalue) (JDict doc) = Inr out"
  shows "\<exists>doc' kvs'. out = JDict doc' \<and> map_of doc' ''configParameters'' = Some (JDict kvs')
           \<and> (\<forall>k. k \<noteq> p \<longrightarrow> map_of kvs' k = map_of kvs k)"
  using assms
  by (auto simp: inject_fieldobs_def getitem_dict contains_dict ebind_eq_Inr setitem_dict
      raise_def update_conv' split: if_splits sum.splits)

lemma inject_fieldobs_sets:
  assumes "map_of doc ''configParameters'' = Some (JDict kvs)"
    and "map_of kvs p = Some old"
    and "inject_fieldobs model cp (p, pvalue) (JDict doc) = Inr out"
  shows "pvalue \<noteq> JNull
         \<and> (\<exists>doc' kvs'. out = JDict doc' \<and> map_of doc' ''configParameters'' = Some (JDict kvs')
               \<and> map_of kvs' p = Some pvalue)"
proof -
  have "p \<in> fst ` set kvs"
    using assms(2) by (metis map_of_eq_None_iff option.distinct(1))
  then have c: "contains (JDict kvs) (JStr p) = Inr True"
    by (simp add: contains_dict)
  have g: "getitem (JDict doc) (JStr ''configParameters'') = Inr (JDict kvs)"
    using assms(1) by (simp add: getitem_dict)
  from assms(3) c g have r:
    "(if pvalue = JNull then raise (requires_error model p)
      else set_in (JDict doc) [JStr ''configParameters'', JStr p] pvalue) = Inr out"
    by (simp add: inject_fieldobs_def)
  have n: "pvalue \<noteq> JNull"
  proof
    assume "pvalue = JNull"
    with r have "raise (requires_error model p) = Inr out" by simp
    then show False by (simp add: raise_def split: sum.splits)
  qed
  with r g have "out = JDict (AList.update ''configParameters''
                     (JDict (AList.update p pvalue kvs)) doc)"
    by (simp add: setitem_dict)
  then have "\<exists>doc' kvs'. out = JDict doc' \<and> map_of doc' ''configParameters'' = Some (JDict kvs')
               \<and> map_of kvs' p = Some pvalue"
    by (intro exI [of _ "AList.update ''configParameters'' (JDict (AList.update p pvalue kvs)) doc"]
        exI [of _ "AList.update p pvalue kvs"]) (simp add: update_conv')
  with n show ?thesis by simp
qed

text \<open>
  Claim C4 fails as stated for the key \<^verbatim>\<open>fieldObservations\<close>: the skeleton has the key,
  the caller overrides it, and the composed value is the injected field observations
  (lines 891 to 894 run after the overrides).
\<close>

theorem config_parameter_priority_counterexample:
  "composed_at faker1 model1 (JDict [(''fieldObservations'', JStr ''mine'')]) weather1 (JList []) JNull
     [JStr ''configParameters'', JStr ''fieldObservations''] = Inr (JList [])
   \<and> JList [] \<noteq> JStr ''mine''"
  by code_simp

text \<open>
  Claim C4, amended. Let the skeleton be a dict whose \<^verbatim>\<open>configParameters\<close> is a dict,
  and the overrides a dict or \<^verbatim>\<open>None\<close>, and let \<^verbatim>\<open>model_input\<close> return a document.
  For every key \<open>k\<close> of the skeleton's \<^verbatim>\<open>configParameters\<close> other than
  \<^verbatim>\<open>fieldObservations\<close> and \<^verbatim>\<open>fieldObservationQuantifications\<close>, the document has
  at \<open>k\<close> the override if the overrides have the key, else the default that the schema
  declares for \<open>k\<close> if there is one, else the fake value. For each of the two
  field-observation keys, the matching argument is not \<^verbatim>\<open>None\<close> and the document has
  that argument at the key, whatever the overrides and the defaults.
\<close>

theorem config_parameter_priority:
  assumes "prepare_schema model = Inr schema"
    and "config_params_of schema = Inr config_params"
    and "faker schema = Inr (JDict skeleton)"
    and "map_of skeleton ''configParameters'' = Some (JDict fakes)"
    and "(parameters = JNull \<and> overrides = []) \<or> parameters = JDict overrides"
    and "model_input faker model parameters weather_data fo foq = Inr out"
    and "map_of fakes k = Some fake"
  shows "(k \<notin> set fieldobs \<longrightarrow>
            get_in out [JStr ''configParameters'', JStr k]
              = Inr (priority_value overrides config_params k fake))
       \<and> (k = ''fieldObservations'' \<longrightarrow>
            fo \<noteq> JNull \<and> get_in out [JStr ''configParameters'', JStr k] = Inr fo)
       \<and> (k = ''fieldObservationQuantifications'' \<longrightarrow>
            foq \<noteq> JNull \<and> get_in out [JStr ''configParameters'', JStr k] = Inr foq)"
proof -
  from assms(1,2,3,6) obtain input1 required interval input2 where
    ap: "apply_parameters config_params parameters (JDict skeleton) = Inr input1" and
    iw: "inject_weather model schema required interval weather_data input1 = Inr input2" and
    fe: "for_each (inject_fieldobs model config_params)
           (zip fieldobs [fo, foq]) input2 = Inr out"
    by (auto simp: model_input_def synthesize_def ebind_eq_Inr)
  have kin: "k \<in> fst ` set fakes"
    using assms(7) by (metis map_of_eq_None_iff option.distinct(1))
  from apply_parameters_dict [OF assms(4,5) ap] kin assms(7) obtain doc1 kvs1 where
    1: "input1 = JDict doc1" "map_of doc1 ''configParameters'' = Some (JDict kvs1)"
       "map_of kvs1 k = Some (priority_value overrides config_params k fake)"
    by force
  from inject_weather_keeps_config [OF 1(2)] iw 1(1) obtain doc2 where
    2: "input2 = JDict doc2" "map_of doc2 ''configParameters'' = Some (JDict kvs1)"
    by blast
  from fe obtain input3 where
    f1: "inject_fieldobs model config_params (''fieldObservations'', fo) input2 = Inr input3" and
    f2: "inject_fieldobs model config_params (''fieldObservationQuantifications'', foq) input3 = Inr out"
    by (auto simp: zip_fieldobs for_each_two ebind_eq_Inr)
  from inject_fieldobs_keeps_others [OF 2(2)] f1 2(1) obtain doc3 kvs3 where
    3: "input3 = JDict doc3" "map_of doc3 ''configParameters'' = Some (JDict kvs3)"
       "\<forall>j. j \<noteq> ''fieldObservations'' \<longrightarrow> map_of kvs3 j = map_of kvs1 j"
    by blast
  from inject_fieldobs_keeps_others [OF 3(2)] f2 3(1) obtain doc4 kvs4 where
    4: "out = JDict doc4" "map_of doc4 ''configParameters'' = Some (JDict kvs4)"
       "\<forall>j. j \<noteq> ''fieldObservationQuantifications'' \<longrightarrow> map_of kvs4 j = map_of kvs3 j"
    by blast
  have at: "get_in out [JStr ''configParameters'', JStr k] = Inr v" if "map_of kvs4 k = Some v" for v
    using 4(1,2) that by (simp add: getitem_dict)
  have others: "get_in out [JStr ''configParameters'', JStr k]
                  = Inr (priority_value overrides config_params k fake)"
    if "k \<notin> set fieldobs"
  proof -
    from that have "k \<noteq> ''fieldObservations''" "k \<noteq> ''fieldObservationQuantifications''"
      by (auto simp: fieldobs_def)
    then have "map_of kvs4 k = Some (priority_value overrides config_params k fake)"
      using 1(3) 3(3) 4(3) by simp
    then show ?thesis by (rule at)
  qed
  have first: "fo \<noteq> JNull \<and> get_in out [JStr ''configParameters'', JStr k] = Inr fo"
    if k: "k = ''fieldObservations''"
  proof -
    from inject_fieldobs_sets [OF 2(2) 1(3) [unfolded k]] f1 2(1) obtain d kv where
      "fo \<noteq> JNull" "input3 = JDict d" "map_of d ''configParameters'' = Some (JDict kv)"
      "map_of kv ''fieldObservations'' = Some fo"
      by blast
    then have "fo \<noteq> JNull" and "map_of kvs4 k = Some fo"
      using 3(1,2) 4(3) k by simp_all
    then show ?thesis using at by simp
  qed
  have second: "foq \<noteq> JNull \<and> get_in out [JStr ''configParameters'', JStr k] = Inr foq"
    if k: "k = ''fieldObservationQuantifications''"
  proof -
    have "map_of kvs3 ''fieldObservationQuantifications''
            = Some (priority_value overrides config_params k fake)"
      using 3(3) 1(3) k by simp
    from inject_fieldobs_sets [OF 3(2) this] f2 3(1) obtain d kv where
      "foq \<noteq> JNull" "out = JDict d" "map_of d ''configParameters'' = Some (JDict kv)"
      "map_of kv ''fieldObservationQuantifications'' = Some foq"
      by blast
    then have "foq \<noteq> JNull" and "map_of kvs4 k = Some foq"
      using 4(1,2) k by simp_all
    then show ?thesis using at by simp
  qed
  show ?thesis using others first second by blast
qed

text \<open>
  The amended claim at the example model: an override for \<^verbatim>\<open>threshold\<close>, and an
  override for each field-observation key, which the injected argument replaces.
\<close>

theorem config_parameter_priority_witness:
  "''threshold'' \<notin> set fieldobs
   \<and> composed_at faker1 model1 (JDict [(''threshold'', JInt 9)]) weather1 (JList []) JNull
       [JStr ''configParameters'', JStr ''threshold''] = Inr (JInt 9)
   \<and> composed_at faker1 model1 (JDict [(''fieldObservations'', JStr ''mine'')]) weather1
       (JList [JInt 3]) JNull [JStr ''configParameters'', JStr ''fieldObservations'']
       = Inr (JList [JInt 3])
   \<and> composed_at faker3 model1 (JDict [(''fieldObservationQuantifications'', JStr ''mine'')]) JNull
       (JList [JInt 3]) (JList [JInt 4])
       [JStr ''configParameters'', JStr ''fieldObservationQuantifications'']
       = Inr (JList [JInt 4])"
proof -
  let ?fakes = "[(''timeZone'', JStr ''abc''), (''threshold'', JInt 7),
                 (''fieldObservations'', JStr ''{fieldObservations}'')]"
  let ?skeleton = "[(''configParameters'', JDict ?fakes), (''weatherData'', JStr ''{WEATHER_DATA}'')]"
  let ?fakes3 = "[(''timeZone'', JStr ''abc''),
                  (''fieldObservations'', JStr ''{fieldObservations}''),
                  (''fieldObservationQuantifications'', JStr ''xyz'')]"
  let ?skeleton3 = "[(''configParameters'', JDict ?fakes3)]"
  let ?prm = "[(''threshold'', JInt 9)]"
  let ?prm2 = "[(''fieldObservations'', JStr ''mine'')]"
  let ?prm3 = "[(''fieldObservationQuantifications'', JStr ''mine'')]"
  have "map_sum id (\<lambda>_. ()) (prepare_schema model1) = Inr ()" by code_simp
  then obtain schema where 1: "prepare_schema model1 = Inr schema"
    using succeeds_unit by blast
  have "map_sum id (\<lambda>_. ()) (ebind (prepare_schema model1) config_params_of) = Inr ()"
    by code_simp
  then obtain cp where 2: "config_params_of schema = Inr cp"
    using succeeds_unit [of "config_params_of schema"] 1 by auto
  have 3: "faker1 schema = Inr (JDict ?skeleton)" by (simp add: faker1_def)
  have 4: "map_of ?skeleton ''configParameters'' = Some (JDict ?fakes)" by simp
  have 5: "(JDict ?prm = JNull \<and> ?prm = []) \<or> JDict ?prm = JDict ?prm" by simp
  have "map_sum id (\<lambda>_. ()) (model_input faker1 model1 (JDict ?prm) weather1 (JList []) JNull) = Inr ()"
    by code_simp
  then obtain out where 6: "model_input faker1 model1 (JDict ?prm) weather1 (JList []) JNull = Inr out"
    using succeeds_unit by blast
  have 7: "map_of ?fakes ''threshold'' = Some (JInt 7)" by simp
  have 8: "''threshold'' \<notin> set fieldobs" by (simp add: fieldobs_def)
  have "get_in out [JStr ''configParameters'', JStr ''threshold'']
          = Inr (priority_value ?prm cp ''threshold'' (JInt 7))"
    using config_parameter_priority [OF 1 2 3 4 5 6 7] 8 by blast
  then have "get_in out [JStr ''configParameters'', JStr ''threshold''] = Inr (JInt 9)"
    by (simp add: priority_value_def)
  then have A: "composed_at faker1 model1 (JDict ?prm) weather1 (JList []) JNull
       [JStr ''configParameters'', JStr ''threshold''] = Inr (JInt 9)"
    using 6 by (simp add: composed_at_def)
  have b5: "(JDict ?prm2 = JNull \<and> ?prm2 = []) \<or> JDict ?prm2 = JDict ?prm2" by simp
  have "map_sum id (\<lambda>_. ()) (model_input faker1 model1 (JDict ?prm2) weather1 (JList [JInt 3]) JNull) = Inr ()"
    by code_simp
  then obtain out2 where
    b6: "model_input faker1 model1 (JDict ?prm2) weather1 (JList [JInt 3]) JNull = Inr out2"
    using succeeds_unit by blast
  have b7: "map_of ?fakes ''fieldObservations'' = Some (JStr ''{fieldObservations}'')" by simp
  have "get_in out2 [JStr ''configParameters'', JStr ''fieldObservations''] = Inr (JList [JInt 3])"
    using config_parameter_priority [OF 1 2 3 4 b5 b6 b7] by blast
  then have B: "composed_at faker1 model1 (JDict ?prm2) weather1 (JList [JInt 3]) JNull
       [JStr ''configParameters'', JStr ''fieldObservations''] = Inr (JList [JInt 3])"
    using b6 by (simp add: composed_at_def)
  have c3: "faker3 schema = Inr (JDict ?skeleton3)" by (simp add: faker3_def)
  have c4: "map_of ?skeleton3 ''configParameters'' = Some (JDict ?fakes3)" by simp
  have c5: "(JDict ?prm3 = JNull \<and> ?prm3 = []) \<or> JDict ?prm3 = JDict ?prm3" by simp
  have "map_sum id (\<lambda>_. ())
          (model_input faker3 model1 (JDict ?prm3) JNull (JList [JInt 3]) (JList [JInt 4])) = Inr ()"
    by code_simp
  then obtain out3 where
    c6: "model_input faker3 model1 (JDict ?prm3) JNull (JList [JInt 3]) (JList [JInt 4]) = Inr out3"
    using succeeds_unit by blast
  have c7: "map_of ?fakes3 ''fieldObservationQuantifications'' = Some (JStr ''xyz'')" by simp
  have "get_in out3 [JStr ''configParameters'', JStr ''fieldObservationQuantifications'']
          = Inr (JList [JInt 4])"
    using config_parameter_priority [OF 1 2 c3 c4 c5 c6 c7] by blast
  then have C: "composed_at faker3 model1 (JDict ?prm3) JNull (JList [JInt 3]) (JList [JInt 4])
       [JStr ''configParameters'', JStr ''fieldObservationQuantifications''] = Inr (JList [JInt 4])"
    using c6 by (simp add: composed_at_def)
  show ?thesis using 8 A B C by simp
qed

subsection \<open>The caller's schema\<close>

text \<open>On the example model, the working schema read from the store is the one of the value model.\<close>

lemma value_model_agrees: "working_schema model1 = prepare_schema model1"
  by code_simp

text \<open>
  Claim C5. Read through the caller's own reference, the model's input schema is not the
  same after lines 841 to 855: the definitions of \<^verbatim>\<open>weatherData\<close> and of
  \<^verbatim>\<open>fieldObservations\<close> have become the sentinel schemas. Only the first level is
  protected by the copy: the caller still has \<^verbatim>\<open>definitions\<close>.
\<close>

theorem model_input_mutates_caller_schema:
  "caller_reads_before model1
     [JStr ''execution'', JStr ''input_schema'', JStr ''properties'', JStr ''weatherData'']
     = Inr (JDict [(''$ref'', JStr ''https://x/schema/weatherdata'')])
   \<and> caller_reads_after model1
     [JStr ''execution'', JStr ''input_schema'', JStr ''properties'', JStr ''weatherData'']
     = Inr (JDict [(''type'', JStr ''string''), (''pattern'', JStr ''^{WEATHER_DATA}$''),
                   (''default'', JStr ''{WEATHER_DATA}'')])
   \<and> caller_reads_before model1
     [JStr ''execution'', JStr ''input_schema'', JStr ''properties'', JStr ''configParameters'',
      JStr ''properties'', JStr ''fieldObservations'']
     = Inr (JDict [(''type'', JStr ''array'')])
   \<and> caller_reads_after model1
     [JStr ''execution'', JStr ''input_schema'', JStr ''properties'', JStr ''configParameters'',
      JStr ''properties'', JStr ''fieldObservations'']
     = Inr (JDict [(''type'', JStr ''string''), (''pattern'', JStr ''^{fieldObservations}$''),
                   (''default'', JStr ''{fieldObservations}'')])
   \<and> caller_reads_after model1 [JStr ''execution'', JStr ''input_schema'', JStr ''definitions'']
     = Inr (JDict [])"
  by code_simp

end
